theory Spec2Isabelle
  imports Complex_Main "HOL-Library.Sublist"
begin

section \<open>JavaScript values\<close>

text \<open>
  The server of \<^verbatim>\<open>src/index.ts\<close> receives JSON argument bags, builds object literals
  from them and sends them as JSON. A value is a JSON value or \<^verbatim>\<open>undefined\<close>
  (what reading a missing property gives). Objects keep the order of their keys, so
  they are association lists, each key once (the first entry counts otherwise); a number
  is a rational (the code only tests a number against zero, prints it and passes it
  through), so it is finite: a JSON number too large for a double, which parses to
  \<^verbatim>\<open>Infinity\<close> and is written back as \<^verbatim>\<open>null\<close>, is outside the model. Strings are byte
  strings (UTF-8).
\<close>

datatype jsval =
    JUndefined
  | JNull
  | JBool bool
  | JNum rat
  | JStr string
  | JArr "jsval list"
  | JObj "(string \<times> jsval) list"

text \<open>
  What the code can throw: \<^verbatim>\<open>new Error(msg)\<close> of the source itself, and the
  \<^verbatim>\<open>TypeError\<close> and \<^verbatim>\<open>SyntaxError\<close> of the runtime (their wording is the engine's;
  V8's is used here).
\<close>

datatype error = Error string | TypeError string | SyntaxError string

fun message :: "error \<Rightarrow> string" where
  "message (Error m) = m"
| "message (TypeError m) = m"
| "message (SyntaxError m) = m"

text \<open>\<^verbatim>\<open>if (v)\<close>, \<^verbatim>\<open>!v\<close>, \<^verbatim>\<open>v || d\<close>, \<^verbatim>\<open>v ? a : b\<close>: the falsy values are
  \<^verbatim>\<open>undefined\<close>, \<^verbatim>\<open>null\<close>, \<^verbatim>\<open>false\<close>, \<^verbatim>\<open>0\<close> and the empty string.\<close>

fun truthy :: "jsval \<Rightarrow> bool" where
  "truthy JUndefined = False"
| "truthy JNull = False"
| "truthy (JBool b) = b"
| "truthy (JNum r) = (r \<noteq> 0)"
| "truthy (JStr s) = (s \<noteq> [])"
| "truthy (JArr xs) = True"
| "truthy (JObj kvs) = True"

text \<open>\<^verbatim>\<open>a || b\<close>\<close>

definition js_or :: "jsval \<Rightarrow> jsval \<Rightarrow> jsval" where
  "js_or a b = (if truthy a then a else b)"

text \<open>
  \<^verbatim>\<open>String(v)\<close>, a template literal's \<^verbatim>\<open>${v}\<close> and the conversion of an argument of
  \<^verbatim>\<open>URLSearchParams.append\<close>. The digits of a number are the runtime's business
  (\<open>nts\<close>, \<^verbatim>\<open>Number.prototype.toString\<close>). An array joins its elements with commas,
  \<^verbatim>\<open>null\<close> and \<^verbatim>\<open>undefined\<close> elements as empty strings. A parsed JSON object is
  \<^verbatim>\<open>[object Object]\<close>, unless it has a key \<^verbatim>\<open>toString\<close> of its own: that hides
  \<^verbatim>\<open>Object.prototype.toString\<close> behind a value that cannot be called, and the
  conversion throws.
\<close>

fun ToString :: "(rat \<Rightarrow> string) \<Rightarrow> jsval \<Rightarrow> error + string"
  and Array_join :: "(rat \<Rightarrow> string) \<Rightarrow> jsval list \<Rightarrow> error + string" where
  "ToString nts JUndefined = Inr ''undefined''"
| "ToString nts JNull = Inr ''null''"
| "ToString nts (JBool b) = Inr (if b then ''true'' else ''false'')"
| "ToString nts (JNum r) = Inr (nts r)"
| "ToString nts (JStr s) = Inr s"
| "ToString nts (JArr xs) = Array_join nts xs"
| "ToString nts (JObj kvs) =
     (if ''toString'' \<in> fst ` set kvs
      then Inl (TypeError ''Cannot convert object to primitive value'')
      else Inr ''[object Object]'')"
| "Array_join nts [] = Inr []"
| "Array_join nts (x # xs) =
     (case (if x = JUndefined \<or> x = JNull then Inr [] else ToString nts x) of
        Inl e \<Rightarrow> Inl e
      | Inr s \<Rightarrow>
          (if xs = [] then Inr s
           else (case Array_join nts xs of
                   Inl e \<Rightarrow> Inl e
                 | Inr t \<Rightarrow> Inr (s @ '','' @ t))))"

text \<open>
  \<^verbatim>\<open>JSON.stringify(v)\<close>, as the JSON document it writes (a tree, not its text): a key
  whose value is \<^verbatim>\<open>undefined\<close> is left out of an object, an \<^verbatim>\<open>undefined\<close> element of
  an array is written \<^verbatim>\<open>null\<close>.
\<close>

fun JSON_stringify :: "jsval \<Rightarrow> jsval" where
  "JSON_stringify (JArr xs) =
     JArr (map (\<lambda>x. if x = JUndefined then JNull else JSON_stringify x) xs)"
| "JSON_stringify (JObj kvs) =
     JObj (map (\<lambda>kv. (fst kv, JSON_stringify (snd kv)))
            (filter (\<lambda>kv. snd kv \<noteq> JUndefined) kvs))"
| "JSON_stringify v = v"

text \<open>Reading a property of a parsed JSON value: \<^verbatim>\<open>v.k\<close>. None of the property
  names the source reads is a built-in property of a string, number or array.\<close>

fun get_prop :: "jsval \<Rightarrow> string \<Rightarrow> error + jsval" where
  "get_prop JUndefined k =
     Inl (TypeError (''Cannot read properties of undefined (reading '' @ [CHR 0x27] @ k @ [CHR 0x27] @ '')''))"
| "get_prop JNull k =
     Inl (TypeError (''Cannot read properties of null (reading '' @ [CHR 0x27] @ k @ [CHR 0x27] @ '')''))"
| "get_prop (JObj kvs) k = Inr (case map_of kvs k of None \<Rightarrow> JUndefined | Some v \<Rightarrow> v)"
| "get_prop v k = Inr JUndefined"

section \<open>The runtime and the network\<close>

datatype http_method = GET | POST | PUT | DELETE

text \<open>The body of an outgoing request: none, the JSON document written by
  \<^verbatim>\<open>JSON.stringify\<close>, or the name-value pairs of a \<^verbatim>\<open>URLSearchParams\<close>.\<close>

datatype payload = NoBody | JsonBody jsval | FormBody "(string \<times> string) list"

record request =
  url :: string
  http_method :: http_method
  headers :: "(string \<times> string) list"
  payload :: payload

text \<open>A response: \<open>body_text\<close> is what \<^verbatim>\<open>response.text()\<close> resolves to, \<open>body_json\<close>
  what \<^verbatim>\<open>response.json()\<close> settles to (the parsed value, or the parser's error).\<close>

record response =
  status :: nat
  statusText :: string
  body_text :: string
  body_json :: "error + jsval"

text \<open>\<^verbatim>\<open>response.ok\<close>\<close>

definition ok :: "response \<Rightarrow> bool" where
  "ok r = (200 \<le> status r \<and> status r \<le> 299)"

datatype fetch_result = Rejected error | Response response

text \<open>
  Everything the program takes from outside itself: the digits of a number, the network
  (the outcome of the \<open>n\<close>-th request of the process, which may depend on the request),
  the clock (\<^verbatim>\<open>new Date().toISOString()\<close>) and the pretty-printer
  \<^verbatim>\<open>JSON.stringify(v, null, 2)\<close>.
\<close>

record runtime =
  Number_toString :: "rat \<Rightarrow> string"
  network :: "nat \<Rightarrow> request \<Rightarrow> fetch_result"
  Date_toISOString :: string
  JSON_stringify_indent :: "jsval \<Rightarrow> string"

text \<open>A number in a template literal, for a status code: its decimal digits.\<close>

function decimal :: "nat \<Rightarrow> string" where
  "decimal n =
     (if n < 10 then [''0123456789'' ! n]
      else decimal (n div 10) @ [''0123456789'' ! (n mod 10)])"
  by pat_completeness auto
termination
  by (relation "measure id") auto

declare decimal.simps [simp del]

section \<open>Module state\<close>

text \<open>
  The module-level bindings of \<^verbatim>\<open>src/index.ts\<close> (lines 22 to 43): six constants read
  from the environment and the one \<^verbatim>\<open>let\<close>, \<open>currentAccessToken\<close>. \<open>sent\<close> is the
  log of the requests handed to \<^verbatim>\<open>fetch\<close> so far, oldest first.
\<close>

record module =
  SAGE_CLIENT_ID :: string
  SAGE_CLIENT_SECRET :: string
  SAGE_ACCESS_TOKEN :: string
  SAGE_REFRESH_TOKEN :: string
  SAGE_REGION :: string
  SAGE_API_VERSION :: string
  currentAccessToken :: jsval
  sent :: "request list"

text \<open>\<^verbatim>\<open>process.env.K || d\<close>\<close>

definition env_or :: "(string \<rightharpoonup> string) \<Rightarrow> string \<Rightarrow> string \<Rightarrow> string" where
  "env_or env k d = (case env k of None \<Rightarrow> d | Some v \<Rightarrow> if v = [] then d else v)"

definition startup :: "(string \<rightharpoonup> string) \<Rightarrow> module" where
  "startup env =
     \<lparr> SAGE_CLIENT_ID = env_or env ''SAGE_CLIENT_ID'' [],
       SAGE_CLIENT_SECRET = env_or env ''SAGE_CLIENT_SECRET'' [],
       SAGE_ACCESS_TOKEN = env_or env ''SAGE_ACCESS_TOKEN'' [],
       SAGE_REFRESH_TOKEN = env_or env ''SAGE_REFRESH_TOKEN'' [],
       SAGE_REGION = env_or env ''SAGE_REGION'' ''uk'',
       SAGE_API_VERSION = env_or env ''SAGE_API_VERSION'' ''v3.1'',
       currentAccessToken = JStr (env_or env ''SAGE_ACCESS_TOKEN'' []),
       sent = [] \<rparr>"

definition API_BASE_URLS :: "(string \<times> string) list" where
  "API_BASE_URLS =
     [(''uk'', ''https://api.accounting.sage.com''),
      (''us'', ''https://api.accounting.sage.com''),
      (''ca'', ''https://api.accounting.sage.com''),
      (''de'', ''https://api.accounting.sage.com''),
      (''es'', ''https://api.accounting.sage.com''),
      (''fr'', ''https://api.accounting.sage.com''),
      (''ie'', ''https://api.accounting.sage.com'')]"

text \<open>\<^verbatim>\<open>`${API_BASE_URLS[SAGE_REGION]}/${SAGE_API_VERSION}`\<close>: a region that is not in
  the table reads as \<^verbatim>\<open>undefined\<close>. (A region that names a property every object
  inherits, such as \<^verbatim>\<open>toString\<close>, would read as that property; the model leaves
  those names out.)\<close>

definition BASE_URL :: "module \<Rightarrow> string" where
  "BASE_URL st =
     (case map_of API_BASE_URLS (SAGE_REGION st) of
        None \<Rightarrow> ''undefined''
      | Some u \<Rightarrow> u) @ ''/'' @ SAGE_API_VERSION st"

definition TOKEN_URL :: string where
  "TOKEN_URL = ''https://oauth.accounting.sage.com/token''"

text \<open>\<^verbatim>\<open>await fetch(url, options)\<close>: the request is logged and the network answers.\<close>

definition fetch :: "runtime \<Rightarrow> request \<Rightarrow> module \<Rightarrow> fetch_result \<times> module" where
  "fetch rt req st = (network rt (length (sent st)) req, st\<lparr>sent := sent st @ [req]\<rparr>)"

section \<open>The gateway\<close>

text \<open>The request of \<open>refreshAccessToken\<close> (lines 107 to 118).\<close>

definition token_request :: "module \<Rightarrow> request" where
  "token_request st =
     \<lparr> url = TOKEN_URL,
       http_method = POST,
       headers = [(''Content-Type'', ''application/x-www-form-urlencoded'')],
       payload = FormBody
         [(''grant_type'', ''refresh_token''),
          (''refresh_token'', SAGE_REFRESH_TOKEN st),
          (''client_id'', SAGE_CLIENT_ID st),
          (''client_secret'', SAGE_CLIENT_SECRET st)] \<rparr>"

definition refreshAccessToken :: "runtime \<Rightarrow> module \<Rightarrow> (error + unit) \<times> module" where
  "refreshAccessToken rt st =
     (if SAGE_REFRESH_TOKEN st = [] \<or> SAGE_CLIENT_ID st = [] \<or> SAGE_CLIENT_SECRET st = []
      then (Inl (Error
        ''Cannot refresh token: missing SAGE_REFRESH_TOKEN, SAGE_CLIENT_ID, or SAGE_CLIENT_SECRET''), st)
      else
        (let (res, st1) = fetch rt (token_request st) st in
         case res of
           Rejected e \<Rightarrow> (Inl e, st1)
         | Response response \<Rightarrow>
             if \<not> ok response
             then (Inl (Error (''Token refresh failed: '' @ decimal (status response)
                      @ '' '' @ statusText response)), st1)
             else
               (case body_json response of
                  Inl e \<Rightarrow> (Inl e, st1)
                | Inr data \<Rightarrow>
                    (case get_prop data ''access_token'' of
                       Inl e \<Rightarrow> (Inl e, st1)
                     | Inr access_token \<Rightarrow>
                         (Inr (), st1\<lparr>currentAccessToken := access_token\<rparr>)))))"

text \<open>\<^verbatim>\<open>if (body && (method === "POST" || method === "PUT")) options.body =
  JSON.stringify(body)\<close> (lines 71 to 73).\<close>

definition request_payload :: "http_method \<Rightarrow> jsval option \<Rightarrow> payload" where
  "request_payload method body =
     (case body of
        None \<Rightarrow> NoBody
      | Some b \<Rightarrow>
          if truthy b \<and> (method = POST \<or> method = PUT)
          then JsonBody (JSON_stringify b) else NoBody)"

text \<open>The headers and options of \<open>sageRequest\<close> (lines 59 to 73), for the bearer
  string \<open>auth\<close>.\<close>

definition api_request :: "module \<Rightarrow> string \<Rightarrow> http_method \<Rightarrow> jsval option \<Rightarrow> string \<Rightarrow> request" where
  "api_request st endpoint method body auth =
     \<lparr> url = BASE_URL st @ endpoint,
       http_method = method,
       headers =
         [(''Authorization'', ''Bearer '' @ auth),
          (''Content-Type'', ''application/json''),
          (''Accept'', ''application/json'')],
       payload = request_payload method body \<rparr>"

definition sageRequest ::
  "runtime \<Rightarrow> string \<Rightarrow> http_method \<Rightarrow> jsval option \<Rightarrow> module \<Rightarrow> (error + jsval) \<times> module" where
  "sageRequest rt endpoint method body st =
     (if \<not> truthy (currentAccessToken st)
      then (Inl (Error
        ''No access token configured. Please set SAGE_ACCESS_TOKEN in environment.''), st)
      else
        (case ToString (Number_toString rt) (currentAccessToken st) of
           Inl e \<Rightarrow> (Inl e, st)
         | Inr auth \<Rightarrow>
             (let (res, st1) = fetch rt (api_request st endpoint method body auth) st in
              case res of
                Rejected e \<Rightarrow> (Inl e, st1)
              | Response response \<Rightarrow>
                  if status response = 401
                  then
                    (case refreshAccessToken rt st1 of
                       (Inl e, st2) \<Rightarrow> (Inl e, st2)
                     | (Inr u, st2) \<Rightarrow>
                         (case ToString (Number_toString rt) (currentAccessToken st2) of
                            Inl e \<Rightarrow> (Inl e, st2)
                          | Inr auth2 \<Rightarrow>
                              (let (res2, st3) =
                                     fetch rt (api_request st2 endpoint method body auth2) st2 in
                               case res2 of
                                 Rejected e \<Rightarrow> (Inl e, st3)
                               | Response retryResponse \<Rightarrow>
                                   if \<not> ok retryResponse
                                   then (Inl (Error (''Sage API error: ''
                                            @ decimal (status retryResponse) @ '' ''
                                            @ statusText retryResponse)), st3)
                                   else (body_json retryResponse, st3))))
                  else if \<not> ok response
                  then (Inl (Error (''Sage API error: '' @ decimal (status response) @ '' ''
                           @ statusText response @ '' - '' @ body_text response)), st1)
                  else (body_json response, st1))))"

section \<open>The dispatch table\<close>

text \<open>The names announced by the tool listing (lines 142 to 701), in its order.\<close>

definition registered_tools :: "string list" where
  "registered_tools =
     [''sage_list_contacts'', ''sage_get_contact'', ''sage_create_contact'',
      ''sage_list_sales_invoices'', ''sage_get_sales_invoice'', ''sage_create_sales_invoice'',
      ''sage_list_purchase_invoices'', ''sage_list_bank_accounts'', ''sage_get_bank_account'',
      ''sage_list_products'', ''sage_create_product'', ''sage_list_payments'',
      ''sage_list_ledger_accounts'', ''sage_list_tax_rates'', ''sage_get_business'',
      ''sage_create_other_payment'', ''sage_create_other_receipt'',
      ''sage_create_purchase_invoice'', ''sage_create_purchase_invoice_payment'']"

text \<open>The cases of the \<^verbatim>\<open>switch (name)\<close> of the call handler (lines 711 to 966), in
  its order; a name that matches none of them reaches \<^verbatim>\<open>default\<close>.\<close>

datatype tool =
    sage_list_contacts | sage_get_contact | sage_create_contact
  | sage_list_sales_invoices | sage_get_sales_invoice | sage_create_sales_invoice
  | sage_list_purchase_invoices
  | sage_list_bank_accounts | sage_get_bank_account
  | sage_list_products | sage_create_product
  | sage_list_payments
  | sage_list_ledger_accounts
  | sage_list_tax_rates
  | sage_create_other_payment
  | sage_create_other_receipt
  | sage_create_purchase_invoice
  | sage_create_purchase_invoice_payment
  | sage_get_business

definition switch_cases :: "(string \<times> tool) list" where
  "switch_cases =
     [(''sage_list_contacts'', sage_list_contacts),
      (''sage_get_contact'', sage_get_contact),
      (''sage_create_contact'', sage_create_contact),
      (''sage_list_sales_invoices'', sage_list_sales_invoices),
      (''sage_get_sales_invoice'', sage_get_sales_invoice),
      (''sage_create_sales_invoice'', sage_create_sales_invoice),
      (''sage_list_purchase_invoices'', sage_list_purchase_invoices),
      (''sage_list_bank_accounts'', sage_list_bank_accounts),
      (''sage_get_bank_account'', sage_get_bank_account),
      (''sage_list_products'', sage_list_products),
      (''sage_create_product'', sage_create_product),
      (''sage_list_payments'', sage_list_payments),
      (''sage_list_ledger_accounts'', sage_list_ledger_accounts),
      (''sage_list_tax_rates'', sage_list_tax_rates),
      (''sage_create_other_payment'', sage_create_other_payment),
      (''sage_create_other_receipt'', sage_create_other_receipt),
      (''sage_create_purchase_invoice'', sage_create_purchase_invoice),
      (''sage_create_purchase_invoice_payment'', sage_create_purchase_invoice_payment),
      (''sage_get_business'', sage_get_business)]"

definition tool_of_name :: "string \<Rightarrow> tool option" where
  "tool_of_name name = map_of switch_cases name"

subsection \<open>Query strings\<close>

text \<open>A \<^verbatim>\<open>URLSearchParams\<close> is its list of name-value pairs. One entry
  \<open>(c, k, v)\<close> of \<open>appends\<close> is one statement
  \<^verbatim>\<open>if (c) queryParams.append(k, v)\<close>; the value is converted to a string.\<close>

fun appends ::
  "runtime \<Rightarrow> (string \<times> string) list \<Rightarrow> (bool \<times> string \<times> jsval) list
     \<Rightarrow> error + (string \<times> string) list" where
  "appends rt queryParams [] = Inr queryParams"
| "appends rt queryParams ((c, k, v) # rest) =
     (if c
      then (case ToString (Number_toString rt) v of
              Inl e \<Rightarrow> Inl e
            | Inr s \<Rightarrow> appends rt (queryParams @ [(k, s)]) rest)
      else appends rt queryParams rest)"

text \<open>\<^verbatim>\<open>queryParams.toString()\<close>: the \<^verbatim>\<open>application/x-www-form-urlencoded\<close>
  serialiser. Letters, digits and \<^verbatim>\<open>*-._\<close> stay, a space is \<^verbatim>\<open>+\<close>, any other byte
  is \<^verbatim>\<open>%XX\<close>.\<close>

definition urlencode_byte :: "char \<Rightarrow> string" where
  "urlencode_byte c =
     (if c \<in> set ''ABCDEFGHIJKLMNOPQRSTUVWXYZabcdefghijklmnopqrstuvwxyz0123456789*-._''
      then [c]
      else if c = CHR '' '' then ''+''
      else [CHR ''%'', ''0123456789ABCDEF'' ! (of_char c div 16),
            ''0123456789ABCDEF'' ! (of_char c mod 16)])"

definition urlencode :: "string \<Rightarrow> string" where
  "urlencode s = concat (map urlencode_byte s)"

fun URLSearchParams_toString :: "(string \<times> string) list \<Rightarrow> string" where
  "URLSearchParams_toString [] = []"
| "URLSearchParams_toString [(k, v)] = urlencode k @ ''='' @ urlencode v"
| "URLSearchParams_toString ((k, v) # rest) =
     urlencode k @ ''='' @ urlencode v @ ''&'' @ URLSearchParams_toString rest"

subsection \<open>Prepared calls\<close>

text \<open>
  What a case of the switch hands to \<open>sageRequest\<close>. A list tool builds its endpoint
  from a path and the pairs of its \<^verbatim>\<open>queryParams\<close>; the other tools have no pairs.
  \<open>body = None\<close> is a call without the third argument.
\<close>

record call =
  path :: string
  queryParams :: "(string \<times> string) list"
  http_verb :: http_method
  body :: "jsval option"

text \<open>\<^verbatim>\<open>`/contacts${query ? `?${query}` : ""}`\<close>\<close>

definition endpoint :: "call \<Rightarrow> string" where
  "endpoint c =
     (let query = URLSearchParams_toString (queryParams c)
      in path c @ (if query \<noteq> [] then ''?'' @ query else []))"

text \<open>\<^verbatim>\<open>params.k\<close> on the argument bag.\<close>

definition param :: "(string \<rightharpoonup> jsval) \<Rightarrow> string \<Rightarrow> jsval" where
  "param params k = (case params k of None \<Rightarrow> JUndefined | Some v \<Rightarrow> v)"

text \<open>\<^verbatim>\<open>v.k\<close> on a value that is neither \<^verbatim>\<open>null\<close> nor \<^verbatim>\<open>undefined\<close>.\<close>

definition read_prop :: "jsval \<Rightarrow> string \<Rightarrow> jsval" where
  "read_prop v k = (case get_prop v k of Inl e \<Rightarrow> JUndefined | Inr x \<Rightarrow> x)"

fun mapM :: "('a \<Rightarrow> error + 'b) \<Rightarrow> 'a list \<Rightarrow> error + 'b list" where
  "mapM f [] = Inr []"
| "mapM f (x # xs) =
     (case f x of
        Inl e \<Rightarrow> Inl e
      | Inr y \<Rightarrow> (case mapM f xs of Inl e \<Rightarrow> Inl e | Inr ys \<Rightarrow> Inr (y # ys)))"

text \<open>\<^verbatim>\<open>v.map(f)\<close> where \<open>v\<close> is written \<open>src\<close> in the source: only an array has a
  \<^verbatim>\<open>map\<close> to call.\<close>

definition Array_map :: "string \<Rightarrow> jsval \<Rightarrow> (jsval \<Rightarrow> error + jsval) \<Rightarrow> error + jsval" where
  "Array_map src v f =
     (case v of
        JArr xs \<Rightarrow> (case mapM f xs of Inl e \<Rightarrow> Inl e | Inr ys \<Rightarrow> Inr (JArr ys))
      | JUndefined \<Rightarrow> Inl (TypeError
          (''Cannot read properties of undefined (reading '' @ [CHR 0x27] @ ''map'' @ [CHR 0x27] @ '')''))
      | JNull \<Rightarrow> Inl (TypeError
          (''Cannot read properties of null (reading '' @ [CHR 0x27] @ ''map'' @ [CHR 0x27] @ '')''))
      | _ \<Rightarrow> Inl (TypeError (src @ ''.map is not a function'')))"

text \<open>The arrow function of lines 778 to 784 and 927 to 933. Its first read throws on
  a \<^verbatim>\<open>null\<close> item; after it the other reads cannot.\<close>

definition invoice_line :: "jsval \<Rightarrow> error + jsval" where
  "invoice_line item =
     (case get_prop item ''description'' of
        Inl e \<Rightarrow> Inl e
      | Inr description \<Rightarrow>
          Inr (JObj
            [(''description'', description),
             (''quantity'', read_prop item ''quantity''),
             (''unit_price'', read_prop item ''unit_price''),
             (''tax_rate_id'', read_prop item ''tax_rate_id''),
             (''ledger_account_id'', read_prop item ''ledger_account_id'')]))"

text \<open>The arrow function of lines 949 to 952.\<close>

definition allocated_artefact :: "jsval \<Rightarrow> error + jsval" where
  "allocated_artefact alloc =
     (case get_prop alloc ''invoice_id'' of
        Inl e \<Rightarrow> Inl e
      | Inr invoice_id \<Rightarrow>
          Inr (JObj [(''artefact_id'', invoice_id), (''amount'', read_prop alloc ''amount'')]))"

text \<open>\<^verbatim>\<open>new Date().toISOString().split("T")[0]\<close>\<close>

definition today :: "runtime \<Rightarrow> string" where
  "today rt = takeWhile (\<lambda>c. c \<noteq> CHR ''T'') (Date_toISOString rt)"

text \<open>A list case: the statements that fill \<^verbatim>\<open>queryParams\<close>, then a \<^verbatim>\<open>GET\<close> of the
  path with the query.\<close>

definition listing :: "runtime \<Rightarrow> string \<Rightarrow> (bool \<times> string \<times> jsval) list \<Rightarrow> error + call" where
  "listing rt p steps =
     (case appends rt [] steps of
        Inl e \<Rightarrow> Inl e
      | Inr q \<Rightarrow> Inr \<lparr> path = p, queryParams = q, http_verb = GET, body = None \<rparr>)"

text \<open>A get case: \<^verbatim>\<open>`/contacts/${id}`\<close>.\<close>

definition getting :: "runtime \<Rightarrow> string \<Rightarrow> jsval \<Rightarrow> error + call" where
  "getting rt p ident =
     (case ToString (Number_toString rt) ident of
        Inl e \<Rightarrow> Inl e
      | Inr s \<Rightarrow> Inr \<lparr> path = p @ s, queryParams = [], http_verb = GET, body = None \<rparr>)"

text \<open>A create case: \<^verbatim>\<open>sageRequest(path, "POST", body)\<close>.\<close>

definition posting :: "string \<Rightarrow> jsval \<Rightarrow> call" where
  "posting p b = \<lparr> path = p, queryParams = [], http_verb = POST, body = Some b \<rparr>"

text \<open>The cases of the switch, one equation each, in the order of the source.\<close>

fun tool_call :: "runtime \<Rightarrow> tool \<Rightarrow> (string \<rightharpoonup> jsval) \<Rightarrow> error + call" where
  "tool_call rt sage_list_contacts params =
     listing rt ''/contacts''
       [(truthy (param params ''contact_type'') \<and> param params ''contact_type'' \<noteq> JStr ''all'',
           ''contact_type_id'', param params ''contact_type''),
        (truthy (param params ''search''), ''search'', param params ''search''),
        (truthy (param params ''page''), ''page'', param params ''page''),
        (truthy (param params ''items_per_page''), ''items_per_page'', param params ''items_per_page'')]"
| "tool_call rt sage_get_contact params =
     getting rt ''/contacts/'' (param params ''contact_id'')"
| "tool_call rt sage_create_contact params =
     Inr (posting ''/contacts''
       (JObj
         [(''contact'', JObj
            [(''name'', param params ''name''),
             (''contact_type_ids'', js_or (param params ''contact_type_ids'') (JArr [])),
             (''reference'', param params ''reference''),
             (''main_address'', JObj
                [(''address_line_1'', param params ''address_line_1''),
                 (''city'', param params ''city''),
                 (''postal_code'', param params ''postal_code''),
                 (''country_id'', param params ''country_id'')]),
             (''email'', param params ''email''),
             (''telephone'', param params ''telephone'')])]))"
| "tool_call rt sage_list_sales_invoices params =
     listing rt ''/sales_invoices''
       [(truthy (param params ''status''), ''status_id'', param params ''status''),
        (truthy (param params ''contact_id''), ''contact_id'', param params ''contact_id''),
        (truthy (param params ''from_date''), ''from_date'', param params ''from_date''),
        (truthy (param params ''to_date''), ''to_date'', param params ''to_date''),
        (truthy (param params ''page''), ''page'', param params ''page''),
        (truthy (param params ''items_per_page''), ''items_per_page'', param params ''items_per_page'')]"
| "tool_call rt sage_get_sales_invoice params =
     getting rt ''/sales_invoices/'' (param params ''invoice_id'')"
| "tool_call rt sage_create_sales_invoice params =
     (case Array_map ''params.line_items'' (param params ''line_items'') invoice_line of
        Inl e \<Rightarrow> Inl e
      | Inr invoice_lines \<Rightarrow>
          Inr (posting ''/sales_invoices''
            (JObj
              [(''sales_invoice'', JObj
                 [(''contact_id'', param params ''contact_id''),
                  (''date'', js_or (param params ''date'') (JStr (today rt))),
                  (''due_date'', param params ''due_date''),
                  (''reference'', param params ''reference''),
                  (''notes'', param params ''notes''),
                  (''invoice_lines'', invoice_lines)])])))"
| "tool_call rt sage_list_purchase_invoices params =
     listing rt ''/purchase_invoices''
       [(truthy (param params ''status''), ''status_id'', param params ''status''),
        (truthy (param params ''contact_id''), ''contact_id'', param params ''contact_id''),
        (truthy (param params ''from_date''), ''from_date'', param params ''from_date''),
        (truthy (param params ''to_date''), ''to_date'', param params ''to_date''),
        (truthy (param params ''page''), ''page'', param params ''page'')]"
| "tool_call rt sage_list_bank_accounts params =
     Inr \<lparr> path = ''/bank_accounts'', queryParams = [], http_verb = GET, body = None \<rparr>"
| "tool_call rt sage_get_bank_account params =
     getting rt ''/bank_accounts/'' (param params ''bank_account_id'')"
| "tool_call rt sage_list_products params =
     listing rt ''/products''
       [(truthy (param params ''search''), ''search'', param params ''search''),
        (param params ''active'' \<noteq> JUndefined, ''active'', param params ''active''),
        (truthy (param params ''page''), ''page'', param params ''page'')]"
| "tool_call rt sage_create_product params =
     Inr (posting ''/products''
       (JObj
         [(''product'', JObj
            [(''description'', param params ''description''),
             (''item_code'', param params ''item_code''),
             (''sales_ledger_account_id'', param params ''sales_ledger_account_id''),
             (''purchase_ledger_account_id'', param params ''purchase_ledger_account_id''),
             (''sales_tax_rate_id'', param params ''sales_tax_rate_id''),
             (''purchase_tax_rate_id'', param params ''purchase_tax_rate_id''),
             (''sales_prices'',
                if truthy (param params ''sales_price'')
                then JArr [JObj [(''price'', param params ''sales_price'')]]
                else JUndefined),
             (''purchase_price'', param params ''purchase_price'')])]))"
| "tool_call rt sage_list_payments params =
     listing rt ''/contact_payments''
       [(truthy (param params ''contact_id''), ''contact_id'', param params ''contact_id''),
        (truthy (param params ''from_date''), ''from_date'', param params ''from_date''),
        (truthy (param params ''to_date''), ''to_date'', param params ''to_date''),
        (truthy (param params ''page''), ''page'', param params ''page'')]"
| "tool_call rt sage_list_ledger_accounts params =
     listing rt ''/ledger_accounts''
       [(truthy (param params ''ledger_account_type_id''), ''ledger_account_type_id'', param params ''ledger_account_type_id''),
        (truthy (param params ''visible_in''), ''visible_in'', param params ''visible_in'')]"
| "tool_call rt sage_list_tax_rates params =
     Inr \<lparr> path = ''/tax_rates'', queryParams = [], http_verb = GET, body = None \<rparr>"
| "tool_call rt sage_create_other_payment params =
     Inr (posting ''/other_payments''
       (JObj
         [(''other_payment'', JObj
            [(''bank_account_id'', param params ''bank_account_id''),
             (''date'', param params ''date''),
             (''reference'', param params ''reference''),
             (''contact_id'', param params ''contact_id''),
             (''payment_lines'', JArr
                [JObj
                   [(''ledger_account_id'', param params ''ledger_account_id''),
                    (''total_amount'', param params ''total_amount''),
                    (''net_amount'', param params ''net_amount''),
                    (''tax_rate_id'', param params ''tax_rate_id'')]])])]))"
| "tool_call rt sage_create_other_receipt params =
     Inr (posting ''/other_receipts''
       (JObj
         [(''other_receipt'', JObj
            [(''bank_account_id'', param params ''bank_account_id''),
             (''date'', param params ''date''),
             (''reference'', param params ''reference''),
             (''contact_id'', param params ''contact_id''),
             (''payment_lines'', JArr
                [JObj
                   [(''ledger_account_id'', param params ''ledger_account_id''),
                    (''total_amount'', param params ''total_amount''),
                    (''net_amount'', param params ''net_amount''),
                    (''tax_rate_id'', param params ''tax_rate_id'')]])])]))"
| "tool_call rt sage_create_purchase_invoice params =
     (case Array_map ''params.line_items'' (param params ''line_items'') invoice_line of
        Inl e \<Rightarrow> Inl e
      | Inr invoice_lines \<Rightarrow>
          Inr (posting ''/purchase_invoices''
            (JObj
              [(''purchase_invoice'', JObj
                 [(''contact_id'', param params ''contact_id''),
                  (''date'', js_or (param params ''date'') (JStr (today rt))),
                  (''due_date'', param params ''due_date''),
                  (''reference'', param params ''reference''),
                  (''notes'', param params ''notes''),
                  (''invoice_lines'', invoice_lines)])])))"
| "tool_call rt sage_create_purchase_invoice_payment params =
     (case Array_map ''params.invoice_allocations'' (param params ''invoice_allocations'')
             allocated_artefact of
        Inl e \<Rightarrow> Inl e
      | Inr allocated_artefacts \<Rightarrow>
          Inr (posting ''/contact_payments''
            (JObj
              [(''contact_payment'', JObj
                 [(''contact_id'', param params ''contact_id''),
                  (''bank_account_id'', param params ''bank_account_id''),
                  (''date'', param params ''date''),
                  (''total_amount'', param params ''total_amount''),
                  (''reference'', param params ''reference''),
                  (''allocated_artefacts'', allocated_artefacts)])])))"
| "tool_call rt sage_get_business params =
     Inr \<lparr> path = ''/business'', queryParams = [], http_verb = GET, body = None \<rparr>"

text \<open>
  The handler casts \<^verbatim>\<open>request.params.arguments\<close> to a record without a check; the
  transport lets a call come without arguments, and then \<^verbatim>\<open>params\<close> is
  \<^verbatim>\<open>undefined\<close>: the first \<^verbatim>\<open>params.k\<close> a case evaluates throws. \<open>first_read\<close> is that
  property, for the cases that read one.
\<close>

fun first_read :: "tool \<Rightarrow> string option" where
  "first_read sage_list_contacts = Some ''contact_type''"
| "first_read sage_get_contact = Some ''contact_id''"
| "first_read sage_create_contact = Some ''name''"
| "first_read sage_list_sales_invoices = Some ''status''"
| "first_read sage_get_sales_invoice = Some ''invoice_id''"
| "first_read sage_create_sales_invoice = Some ''contact_id''"
| "first_read sage_list_purchase_invoices = Some ''status''"
| "first_read sage_list_bank_accounts = None"
| "first_read sage_get_bank_account = Some ''bank_account_id''"
| "first_read sage_list_products = Some ''search''"
| "first_read sage_create_product = Some ''description''"
| "first_read sage_list_payments = Some ''contact_id''"
| "first_read sage_list_ledger_accounts = Some ''ledger_account_type_id''"
| "first_read sage_list_tax_rates = None"
| "first_read sage_create_other_payment = Some ''bank_account_id''"
| "first_read sage_create_other_receipt = Some ''bank_account_id''"
| "first_read sage_create_purchase_invoice = Some ''contact_id''"
| "first_read sage_create_purchase_invoice_payment = Some ''contact_id''"
| "first_read sage_get_business = None"

definition prepare :: "runtime \<Rightarrow> tool \<Rightarrow> (string \<rightharpoonup> jsval) option \<Rightarrow> error + call" where
  "prepare rt t args =
     (case args of
        Some params \<Rightarrow> tool_call rt t params
      | None \<Rightarrow>
          (case first_read t of
             None \<Rightarrow> tool_call rt t Map.empty
           | Some k \<Rightarrow> (case get_prop JUndefined k of Inl e \<Rightarrow> Inl e | Inr v \<Rightarrow> tool_call rt t Map.empty)))"

section \<open>The call handler\<close>

text \<open>The result of a tool call: its one text item and the \<^verbatim>\<open>isError\<close> flag (absent,
  so false, on success).\<close>

record tool_result =
  content_text :: string
  isError :: bool

text \<open>
  The handler of lines 704 to 988: the switch runs inside \<^verbatim>\<open>try\<close>, and whatever is
  thrown (by \<^verbatim>\<open>default\<close>, by a case while it builds its arguments, or by the gateway)
  is caught and becomes an error-flagged result.
\<close>

definition dispatch ::
  "runtime \<Rightarrow> string \<Rightarrow> (string \<rightharpoonup> jsval) option \<Rightarrow> module \<Rightarrow> (error + jsval) \<times> module" where
  "dispatch rt name args st =
     (case tool_of_name name of
        None \<Rightarrow> (Inl (Error (''Unknown tool: '' @ name)), st)
      | Some t \<Rightarrow>
          (case prepare rt t args of
             Inl e \<Rightarrow> (Inl e, st)
           | Inr c \<Rightarrow> sageRequest rt (endpoint c) (http_verb c) (body c) st))"

definition CallTool ::
  "runtime \<Rightarrow> string \<Rightarrow> (string \<rightharpoonup> jsval) option \<Rightarrow> module \<Rightarrow> tool_result \<times> module" where
  "CallTool rt name args st =
     (case dispatch rt name args st of
        (Inr result, st') \<Rightarrow>
          (\<lparr> content_text = JSON_stringify_indent rt result, isError = False \<rparr>, st')
      | (Inl error, st') \<Rightarrow>
          (\<lparr> content_text = ''Error: '' @ message error, isError = True \<rparr>, st'))"

section \<open>Vocabulary of the properties\<close>

text \<open>The state after a process has handled a list of tool calls, one after the other.\<close>

fun serve :: "runtime \<Rightarrow> (string \<times> (string \<rightharpoonup> jsval) option) list \<Rightarrow> module \<Rightarrow> module" where
  "serve rt [] st = st"
| "serve rt ((name, args) # calls) st = serve rt calls (snd (CallTool rt name args st))"

text \<open>
  Where an argument of the bag ends up. \<open>query_fields t\<close> pairs each argument that
  the list tool \<open>t\<close> reads with the query parameter it feeds; \<open>body_fields t\<close> pairs
  each argument that the create tool \<open>t\<close> reads with the place of its value in the
  request body, a path of object keys and array positions. Both are read off the cases
  of the switch.
\<close>

datatype step = Key string | Index nat

fun lookup_path :: "jsval \<Rightarrow> step list \<Rightarrow> jsval option" where
  "lookup_path v [] = Some v"
| "lookup_path (JObj kvs) (Key k # rest) =
     (case map_of kvs k of None \<Rightarrow> None | Some v \<Rightarrow> lookup_path v rest)"
| "lookup_path (JArr xs) (Index i # rest) =
     (if i < length xs then lookup_path (xs ! i) rest else None)"
| "lookup_path v (s # rest) = None"

fun query_fields :: "tool \<Rightarrow> (string \<times> string) list" where
  "query_fields sage_list_contacts =
     [(''contact_type'', ''contact_type_id''), (''search'', ''search''), (''page'', ''page''),
      (''items_per_page'', ''items_per_page'')]"
| "query_fields sage_list_sales_invoices =
     [(''status'', ''status_id''), (''contact_id'', ''contact_id''),
      (''from_date'', ''from_date''), (''to_date'', ''to_date''), (''page'', ''page''),
      (''items_per_page'', ''items_per_page'')]"
| "query_fields sage_list_purchase_invoices =
     [(''status'', ''status_id''), (''contact_id'', ''contact_id''),
      (''from_date'', ''from_date''), (''to_date'', ''to_date''), (''page'', ''page'')]"
| "query_fields sage_list_products =
     [(''search'', ''search''), (''active'', ''active''), (''page'', ''page'')]"
| "query_fields sage_list_payments =
     [(''contact_id'', ''contact_id''), (''from_date'', ''from_date''),
      (''to_date'', ''to_date''), (''page'', ''page'')]"
| "query_fields sage_list_ledger_accounts =
     [(''ledger_account_type_id'', ''ledger_account_type_id''),
      (''visible_in'', ''visible_in'')]"
| "query_fields t = []"

fun body_fields :: "tool \<Rightarrow> (string \<times> step list) list" where
  "body_fields sage_create_contact =
     [(''name'', [Key ''contact'', Key ''name'']),
      (''contact_type_ids'', [Key ''contact'', Key ''contact_type_ids'']),
      (''reference'', [Key ''contact'', Key ''reference'']),
      (''address_line_1'', [Key ''contact'', Key ''main_address'', Key ''address_line_1'']),
      (''city'', [Key ''contact'', Key ''main_address'', Key ''city'']),
      (''postal_code'', [Key ''contact'', Key ''main_address'', Key ''postal_code'']),
      (''country_id'', [Key ''contact'', Key ''main_address'', Key ''country_id'']),
      (''email'', [Key ''contact'', Key ''email'']),
      (''telephone'', [Key ''contact'', Key ''telephone''])]"
| "body_fields sage_create_sales_invoice =
     [(''contact_id'', [Key ''sales_invoice'', Key ''contact_id'']),
      (''date'', [Key ''sales_invoice'', Key ''date'']),
      (''due_date'', [Key ''sales_invoice'', Key ''due_date'']),
      (''reference'', [Key ''sales_invoice'', Key ''reference'']),
      (''notes'', [Key ''sales_invoice'', Key ''notes'']),
      (''line_items'', [Key ''sales_invoice'', Key ''invoice_lines''])]"
| "body_fields sage_create_product =
     [(''description'', [Key ''product'', Key ''description'']),
      (''item_code'', [Key ''product'', Key ''item_code'']),
      (''sales_ledger_account_id'', [Key ''product'', Key ''sales_ledger_account_id'']),
      (''purchase_ledger_account_id'', [Key ''product'', Key ''purchase_ledger_account_id'']),
      (''sales_tax_rate_id'', [Key ''product'', Key ''sales_tax_rate_id'']),
      (''purchase_tax_rate_id'', [Key ''product'', Key ''purchase_tax_rate_id'']),
      (''sales_price'', [Key ''product'', Key ''sales_prices'']),
      (''purchase_price'', [Key ''product'', Key ''purchase_price''])]"
| "body_fields sage_create_other_payment =
     [(''bank_account_id'', [Key ''other_payment'', Key ''bank_account_id'']),
      (''date'', [Key ''other_payment'', Key ''date'']),
      (''reference'', [Key ''other_payment'', Key ''reference'']),
      (''contact_id'', [Key ''other_payment'', Key ''contact_id'']),
      (''ledger_account_id'',
         [Key ''other_payment'', Key ''payment_lines'', Index 0, Key ''ledger_account_id'']),
      (''total_amount'',
         [Key ''other_payment'', Key ''payment_lines'', Index 0, Key ''total_amount'']),
      (''net_amount'',
         [Key ''other_payment'', Key ''payment_lines'', Index 0, Key ''net_amount'']),
      (''tax_rate_id'',
         [Key ''other_payment'', Key ''payment_lines'', Index 0, Key ''tax_rate_id''])]"
| "body_fields sage_create_other_receipt =
     [(''bank_account_id'', [Key ''other_receipt'', Key ''bank_account_id'']),
      (''date'', [Key ''other_receipt'', Key ''date'']),
      (''reference'', [Key ''other_receipt'', Key ''reference'']),
      (''contact_id'', [Key ''other_receipt'', Key ''contact_id'']),
      (''ledger_account_id'',
         [Key ''other_receipt'', Key ''payment_lines'', Index 0, Key ''ledger_account_id'']),
      (''total_amount'',
         [Key ''other_receipt'', Key ''payment_lines'', Index 0, Key ''total_amount'']),
      (''net_amount'',
         [Key ''other_receipt'', Key ''payment_lines'', Index 0, Key ''net_amount'']),
      (''tax_rate_id'',
         [Key ''other_receipt'', Key ''payment_lines'', Index 0, Key ''tax_rate_id''])]"
| "body_fields sage_create_purchase_invoice =
     [(''contact_id'', [Key ''purchase_invoice'', Key ''contact_id'']),
      (''date'', [Key ''purchase_invoice'', Key ''date'']),
      (''due_date'', [Key ''purchase_invoice'', Key ''due_date'']),
      (''reference'', [Key ''purchase_invoice'', Key ''reference'']),
      (''notes'', [Key ''purchase_invoice'', Key ''notes'']),
      (''line_items'', [Key ''purchase_invoice'', Key ''invoice_lines''])]"
| "body_fields sage_create_purchase_invoice_payment =
     [(''contact_id'', [Key ''contact_payment'', Key ''contact_id'']),
      (''bank_account_id'', [Key ''contact_payment'', Key ''bank_account_id'']),
      (''date'', [Key ''contact_payment'', Key ''date'']),
      (''total_amount'', [Key ''contact_payment'', Key ''total_amount'']),
      (''reference'', [Key ''contact_payment'', Key ''reference'']),
      (''invoice_allocations'', [Key ''contact_payment'', Key ''allocated_artefacts''])]"
| "body_fields t = []"

text \<open>The arguments for which a case of the switch writes a default
  (\<^verbatim>\<open>params.contact_type_ids || []\<close>, \<^verbatim>\<open>params.date || new Date()...\<close>).\<close>

definition defaulted :: "(tool \<times> string) list" where
  "defaulted =
     [(sage_create_contact, ''contact_type_ids''),
      (sage_create_sales_invoice, ''date''),
      (sage_create_purchase_invoice, ''date'')]"

text \<open>What the code writes for an absent argument that has a default.\<close>

definition default_values :: "runtime \<Rightarrow> ((tool \<times> string) \<times> jsval) list" where
  "default_values rt =
     [((sage_create_contact, ''contact_type_ids''), JArr []),
      ((sage_create_sales_invoice, ''date''), JStr (today rt)),
      ((sage_create_purchase_invoice, ''date''), JStr (today rt))]"

text \<open>
  The arguments that are arrays of items: \<open>item_fields t\<close> is the argument, the place of
  the array in the request body, and each field the case reads from an item with the key
  it gets in the line written for that item.
\<close>

fun item_fields :: "tool \<Rightarrow> (string \<times> step list \<times> (string \<times> string) list) option" where
  "item_fields sage_create_sales_invoice =
     Some (''line_items'', [Key ''sales_invoice'', Key ''invoice_lines''],
       [(''description'', ''description''), (''quantity'', ''quantity''),
        (''unit_price'', ''unit_price''), (''tax_rate_id'', ''tax_rate_id''),
        (''ledger_account_id'', ''ledger_account_id'')])"
| "item_fields sage_create_purchase_invoice =
     Some (''line_items'', [Key ''purchase_invoice'', Key ''invoice_lines''],
       [(''description'', ''description''), (''quantity'', ''quantity''),
        (''unit_price'', ''unit_price''), (''tax_rate_id'', ''tax_rate_id''),
        (''ledger_account_id'', ''ledger_account_id'')])"
| "item_fields sage_create_purchase_invoice_payment =
     Some (''invoice_allocations'', [Key ''contact_payment'', Key ''allocated_artefacts''],
       [(''invoice_id'', ''artefact_id''), (''amount'', ''amount'')])"
| "item_fields t = None"

definition list_tools :: "tool list" where
  "list_tools =
     [sage_list_contacts, sage_list_sales_invoices, sage_list_purchase_invoices,
      sage_list_bank_accounts, sage_list_products, sage_list_payments,
      sage_list_ledger_accounts, sage_list_tax_rates]"


text \<open>The error messages of the gateway.\<close>

definition AUTH_ERROR :: string where
  "AUTH_ERROR = ''No access token configured. Please set SAGE_ACCESS_TOKEN in environment.''"

definition REFRESH_ERROR :: string where
  "REFRESH_ERROR =
     ''Cannot refresh token: missing SAGE_REFRESH_TOKEN, SAGE_CLIENT_ID, or SAGE_CLIENT_SECRET''"

section \<open>Example environments\<close>

text \<open>A network that answers the requests of a process from a script, in order, and
  fails once the script is used up.\<close>

definition scripted :: "fetch_result list \<Rightarrow> nat \<Rightarrow> request \<Rightarrow> fetch_result" where
  "scripted script n req =
     (if n < length script then script ! n else Rejected (TypeError ''fetch failed''))"

text \<open>A runtime for the examples: they involve whole numbers only and print no
  success result.\<close>

definition example_runtime :: "fetch_result list \<Rightarrow> runtime" where
  "example_runtime script =
     \<lparr> Number_toString = (\<lambda>r. decimal (nat \<lfloor>r\<rfloor>)),
       network = scripted script,
       Date_toISOString = ''2026-11-03T09:30:00.000Z'',
       JSON_stringify_indent = (\<lambda>v. ''null'') \<rparr>"

definition example_module :: module where
  "example_module =
     startup
       [''SAGE_CLIENT_ID'' \<mapsto> ''client'', ''SAGE_CLIENT_SECRET'' \<mapsto> ''secret'',
        ''SAGE_ACCESS_TOKEN'' \<mapsto> ''stale'', ''SAGE_REFRESH_TOKEN'' \<mapsto> ''renew'']"

text \<open>The same process started without a refresh token, and without an access token.\<close>

definition example_module_no_refresh :: module where
  "example_module_no_refresh =
     startup
       [''SAGE_CLIENT_ID'' \<mapsto> ''client'', ''SAGE_CLIENT_SECRET'' \<mapsto> ''secret'',
        ''SAGE_ACCESS_TOKEN'' \<mapsto> ''stale'']"

definition example_module_no_token :: module where
  "example_module_no_token =
     startup
       [''SAGE_CLIENT_ID'' \<mapsto> ''client'', ''SAGE_CLIENT_SECRET'' \<mapsto> ''secret'',
        ''SAGE_REFRESH_TOKEN'' \<mapsto> ''renew'']"

text \<open>A JSON string literal of plain characters.\<close>

definition quoted :: "string \<Rightarrow> string" where
  "quoted s = [CHR 0x22] @ s @ [CHR 0x22]"

definition unauthorized :: response where
  "unauthorized =
     \<lparr> status = 401, statusText = ''Unauthorized'', body_text = ''token expired'',
       body_json = Inl (SyntaxError ''Unexpected token t in JSON at position 0'') \<rparr>"

definition token_issued :: response where
  "token_issued =
     \<lparr> status = 200, statusText = ''OK'', body_text = ''{'' @ quoted ''access_token'' @ '':'' @ quoted ''fresh'' @ ''}'',
       body_json = Inr (JObj [(''access_token'', JStr ''fresh'')]) \<rparr>"

definition token_refused :: response where
  "token_refused =
     \<lparr> status = 400, statusText = ''Bad Request'', body_text = ''invalid_grant'',
       body_json = Inl (SyntaxError ''Unexpected token i in JSON at position 0'') \<rparr>"

definition contacts_page :: response where
  "contacts_page =
     \<lparr> status = 200, statusText = ''OK'', body_text = ''{'' @ quoted ''$items'' @ '':[]}'',
       body_json = Inr (JObj [(''$items'', JArr [])]) \<rparr>"

definition server_error :: response where
  "server_error =
     \<lparr> status = 500, statusText = ''Internal Server Error'', body_text = ''database unavailable'',
       body_json = Inl (SyntaxError ''Unexpected token d in JSON at position 0'') \<rparr>"

section \<open>Facts about the gateway\<close>

lemma tool_of_name_None_iff: "tool_of_name name = None \<longleftrightarrow> name \<notin> set registered_tools"
  by (simp add: tool_of_name_def map_of_eq_None_iff switch_cases_def registered_tools_def)

lemma BASE_URL_not_token: "BASE_URL st @ ep \<noteq> TOKEN_URL"
proof (cases "map_of API_BASE_URLS (SAGE_REGION st)")
  case None
  then show ?thesis by (simp add: BASE_URL_def TOKEN_URL_def)
next
  case (Some u)
  then have "(SAGE_REGION st, u) \<in> set API_BASE_URLS" by (rule map_of_SomeD)
  then have "u = ''https://api.accounting.sage.com''"
    by (auto simp: API_BASE_URLS_def)
  with Some show ?thesis by (simp add: BASE_URL_def TOKEN_URL_def)
qed

lemma refresh_cases:
  "refreshAccessToken rt st = (r, st') \<Longrightarrow>
     (st' = st \<and> r = Inl (Error REFRESH_ERROR)
        \<and> (SAGE_REFRESH_TOKEN st = [] \<or> SAGE_CLIENT_ID st = [] \<or> SAGE_CLIENT_SECRET st = []))
   \<or> (\<exists>e. r = Inl e \<and> st' = st\<lparr>sent := sent st @ [token_request st]\<rparr>)
   \<or> (\<exists>tok. r = Inr () \<and> st' = st\<lparr>sent := sent st @ [token_request st], currentAccessToken := tok\<rparr>)"
  by (auto simp: refreshAccessToken_def fetch_def Let_def REFRESH_ERROR_def
        split: if_splits fetch_result.splits sum.splits)

lemma BASE_URL_upd [simp]:
  "BASE_URL (st\<lparr>sent := xs\<rparr>) = BASE_URL st"
  "BASE_URL (st\<lparr>currentAccessToken := tok\<rparr>) = BASE_URL st"
  by (simp_all add: BASE_URL_def)

lemma token_request_upd [simp]:
  "token_request (st\<lparr>sent := xs\<rparr>) = token_request st"
  "token_request (st\<lparr>currentAccessToken := tok\<rparr>) = token_request st"
  by (simp_all add: token_request_def)

lemma url_api_request [simp]: "url (api_request st ep m b auth) = BASE_URL st @ ep"
  by (simp add: api_request_def)

lemma url_token_request [simp]: "url (token_request st) = TOKEN_URL"
  by (simp add: token_request_def)

text \<open>
  The log of one gateway call: nothing, the request alone, the request and the token
  request, or those two and the retry. Only the log and the access token change.
\<close>

lemma sageRequest_trace:
  assumes "sageRequest rt ep m b st = (r, st')"
  shows "\<exists>new tok. st' = st\<lparr>sent := sent st @ new, currentAccessToken := tok\<rparr> \<and>
           (new = [] \<or> (\<exists>r1. new = [r1] \<and> url r1 = BASE_URL st @ ep)
            \<or> (\<exists>r1. new = [r1, token_request st] \<and> url r1 = BASE_URL st @ ep)
            \<or> (\<exists>r1 r2. new = [r1, token_request st, r2] \<and> url r1 = BASE_URL st @ ep
                  \<and> url r2 = BASE_URL st @ ep))"
proof -
  have same: "st = st\<lparr>sent := sent st @ [], currentAccessToken := currentAccessToken st\<rparr>"
    by simp
  show ?thesis
  proof (cases "truthy (currentAccessToken st)")
    case False
    with assms have "st' = st" by (simp add: sageRequest_def)
    with same show ?thesis by blast
  next
    case tok: True
    show ?thesis
    proof (cases "ToString (Number_toString rt) (currentAccessToken st)")
      case (Inl e)
      with assms tok have "st' = st" by (simp add: sageRequest_def)
      with same show ?thesis by blast
    next
      case (Inr auth)
      define r1 where "r1 = api_request st ep m b auth"
      define st1 where "st1 = st\<lparr>sent := sent st @ [r1]\<rparr>"
      have u1: "url r1 = BASE_URL st @ ep" by (simp add: r1_def)
      have st1: "st1 = st\<lparr>sent := sent st @ [r1], currentAccessToken := currentAccessToken st\<rparr>"
        by (simp add: st1_def)
      show ?thesis
      proof (cases "network rt (length (sent st)) r1")
        case (Rejected e)
        with assms tok Inr have "st' = st1"
          by (simp add: sageRequest_def fetch_def r1_def st1_def)
        with st1 u1 show ?thesis by blast
      next
        case (Response response)
        show ?thesis
        proof (cases "status response = 401")
          case False
          with assms tok Inr Response have "st' = st1"
            by (simp add: sageRequest_def fetch_def r1_def st1_def split: if_splits)
          with st1 u1 show ?thesis by blast
        next
          case True
          obtain rr st2 where ref: "refreshAccessToken rt st1 = (rr, st2)"
            by (cases "refreshAccessToken rt st1") auto
          from refresh_cases [OF ref]
          consider (missing) e where "rr = Inl e" "st2 = st1"
            | (failed) e where "rr = Inl e" "st2 = st1\<lparr>sent := sent st1 @ [token_request st1]\<rparr>"
            | (fresh) tok' where "rr = Inr ()"
                "st2 = st1\<lparr>sent := sent st1 @ [token_request st1], currentAccessToken := tok'\<rparr>"
            by blast
          then show ?thesis
          proof cases
            case missing
            with assms tok Inr Response True ref have "st' = st1"
              by (simp add: sageRequest_def fetch_def r1_def st1_def)
            with st1 u1 show ?thesis by blast
          next
            case failed
            with assms tok Inr Response True ref have "st' = st2"
              by (simp add: sageRequest_def fetch_def r1_def st1_def)
            with failed have
              "st' = st\<lparr>sent := sent st @ [r1, token_request st], currentAccessToken := currentAccessToken st\<rparr>"
              by (simp add: st1_def)
            with u1 show ?thesis by blast
          next
            case fresh
            have st2: "st2 = st\<lparr>sent := sent st @ [r1, token_request st], currentAccessToken := tok'\<rparr>"
              using fresh by (simp add: st1_def)
            show ?thesis
            proof (cases "ToString (Number_toString rt) tok'")
              case (Inl e)
              with assms tok Inr Response True ref fresh have "st' = st2"
                by (simp add: sageRequest_def fetch_def r1_def st1_def)
              with st2 u1 show ?thesis by blast
            next
              case auth2: (Inr auth2)
              define r2 where "r2 = api_request st2 ep m b auth2"
              have u2: "url r2 = BASE_URL st @ ep" by (simp add: r2_def st2)
              from assms tok Inr Response True ref fresh auth2
              have "st' = st2\<lparr>sent := sent st2 @ [r2]\<rparr>"
                by (simp add: sageRequest_def fetch_def r1_def st1_def r2_def Let_def
                      split: if_splits fetch_result.splits)
              then have "st' = st\<lparr>sent := sent st @ [r1, token_request st, r2],
                              currentAccessToken := tok'\<rparr>"
                by (simp add: st2)
              with u1 u2 show ?thesis by blast
            qed
          qed
        qed
      qed
    qed
  qed
qed

text \<open>The same for a tool call, and for any number of them: every request to the token
  endpoint is the one request \<open>token_request\<close> builds from the startup constants.\<close>

lemma dispatch_trace:
  assumes "dispatch rt name args st = (r, st')"
  shows "\<exists>new tok. st' = st\<lparr>sent := sent st @ new, currentAccessToken := tok\<rparr> \<and>
           (\<forall>q \<in> set new. url q = TOKEN_URL \<longrightarrow> q = token_request st)"
proof -
  have same: "st = st\<lparr>sent := sent st @ [], currentAccessToken := currentAccessToken st\<rparr>"
    by simp
  show ?thesis
  proof (cases "tool_of_name name")
    case None
    with assms have "st' = st" by (simp add: dispatch_def)
    with same show ?thesis by (metis empty_iff empty_set)
  next
    case (Some t)
    show ?thesis
    proof (cases "prepare rt t args")
      case (Inl e)
      with assms Some have "st' = st" by (simp add: dispatch_def)
      with same show ?thesis by (metis empty_iff empty_set)
    next
      case (Inr c)
      with assms Some have "sageRequest rt (endpoint c) (http_verb c) (body c) st = (r, st')"
        by (simp add: dispatch_def)
      from sageRequest_trace [OF this] obtain new tok where
        st': "st' = st\<lparr>sent := sent st @ new, currentAccessToken := tok\<rparr>" and
        new: "new = [] \<or> (\<exists>r1. new = [r1] \<and> url r1 = BASE_URL st @ endpoint c)
            \<or> (\<exists>r1. new = [r1, token_request st] \<and> url r1 = BASE_URL st @ endpoint c)
            \<or> (\<exists>r1 r2. new = [r1, token_request st, r2] \<and> url r1 = BASE_URL st @ endpoint c
                  \<and> url r2 = BASE_URL st @ endpoint c)"
        by blast
      from new have "\<forall>q \<in> set new. url q = TOKEN_URL \<longrightarrow> q = token_request st"
        using BASE_URL_not_token [of st "endpoint c"] by auto
      with st' show ?thesis by blast
    qed
  qed
qed

lemma CallTool_state: "snd (CallTool rt name args st) = snd (dispatch rt name args st)"
  by (simp add: CallTool_def split: prod.splits sum.splits)

lemma serve_trace:
  "\<exists>new tok. serve rt calls st = st\<lparr>sent := sent st @ new, currentAccessToken := tok\<rparr> \<and>
     (\<forall>q \<in> set new. url q = TOKEN_URL \<longrightarrow> q = token_request st)"
proof (induction calls arbitrary: st)
  case Nil
  have "st = st\<lparr>sent := sent st @ [], currentAccessToken := currentAccessToken st\<rparr>" by simp
  then show ?case by (metis empty_iff empty_set serve.simps(1))
next
  case (Cons call calls)
  obtain name args where call: "call = (name, args)" by (cases call)
  define st1 where "st1 = snd (CallTool rt name args st)"
  have "dispatch rt name args st = (fst (dispatch rt name args st), st1)"
    by (simp add: st1_def CallTool_state)
  from dispatch_trace [OF this] obtain new1 tok1 where
    st1: "st1 = st\<lparr>sent := sent st @ new1, currentAccessToken := tok1\<rparr>" and
    new1: "\<forall>q \<in> set new1. url q = TOKEN_URL \<longrightarrow> q = token_request st"
    by blast
  from Cons.IH [of st1] obtain new2 tok2 where
    st2: "serve rt calls st1 = st1\<lparr>sent := sent st1 @ new2, currentAccessToken := tok2\<rparr>" and
    new2: "\<forall>q \<in> set new2. url q = TOKEN_URL \<longrightarrow> q = token_request st1"
    by blast
  have "serve rt (call # calls) st =
          st\<lparr>sent := sent st @ (new1 @ new2), currentAccessToken := tok2\<rparr>"
    using st2 by (simp add: call st1_def [symmetric]) (simp add: st1)
  moreover have "\<forall>q \<in> set (new1 @ new2). url q = TOKEN_URL \<longrightarrow> q = token_request st"
    using new1 new2 by (auto simp: st1)
  ultimately show ?case by blast
qed

text \<open>Status codes of the examples, and the definitions an example unfolds.\<close>

lemma decimal_400: "decimal 400 = ''400''"
  by (simp add: decimal.simps)

lemma decimal_401: "decimal 401 = ''401''"
  by (simp add: decimal.simps)

lemma decimal_500: "decimal 500 = ''500''"
  by (simp add: decimal.simps)

lemmas example_defs =
  example_runtime_def scripted_def example_module_def example_module_no_refresh_def
  example_module_no_token_def startup_def env_or_def
  unauthorized_def token_issued_def token_refused_def contacts_page_def server_error_def

section \<open>Unknown tools\<close>

text \<open>
  Claim C9. A tool call whose name is not one of the registered tool names returns an
  error-flagged result whose text names the unknown tool, and issues no network request:
  the module state, with its log of requests, comes back as it was.
\<close>

theorem unknown_tool_error:
  assumes "name \<notin> set registered_tools"
  shows "CallTool rt name args st =
           (\<lparr> content_text = ''Error: Unknown tool: '' @ name, isError = True \<rparr>, st)"
  using assms by (simp add: CallTool_def dispatch_def tool_of_name_None_iff [symmetric])

theorem unknown_tool_error_witness:
  "''sage_delete_contact'' \<notin> set registered_tools \<and>
   CallTool (example_runtime []) ''sage_delete_contact'' (Some Map.empty) example_module =
     (\<lparr> content_text = ''Error: Unknown tool: sage_delete_contact'', isError = True \<rparr>,
      example_module)"
proof -
  have h: "''sage_delete_contact'' \<notin> set registered_tools"
    by (simp add: registered_tools_def)
  from unknown_tool_error [OF h] show ?thesis using h by simp
qed

section \<open>Refresh and retry\<close>

text \<open>
  Claim C1. When the first response of a gateway call has status 401, the token refresh
  that follows succeeds and the reissued request is answered with a 2xx status and a
  body that decodes to \<open>v\<close>, the call returns \<open>v\<close>. It has sent exactly three requests:
  two to the resource endpoint (the second with the refreshed bearer token) and one,
  between them, to the token endpoint.
\<close>

theorem refresh_then_retry:
  assumes tok: "truthy (currentAccessToken st)"
    and auth: "ToString (Number_toString rt) (currentAccessToken st) = Inr auth"
    and first: "network rt (length (sent st)) (api_request st ep m b auth) = Response r1"
    and expired: "status r1 = 401"
    and refresh: "refreshAccessToken rt (st\<lparr>sent := sent st @ [api_request st ep m b auth]\<rparr>)
                    = (Inr (), st2)"
    and auth2: "ToString (Number_toString rt) (currentAccessToken st2) = Inr auth2"
    and retry: "network rt (length (sent st2)) (api_request st2 ep m b auth2) = Response r3"
    and ok3: "ok r3"
    and json: "body_json r3 = Inr v"
  shows "\<exists>new. sageRequest rt ep m b st = (Inr v, st2\<lparr>sent := sent st @ new\<rparr>) \<and>
           new = [api_request st ep m b auth, token_request st, api_request st2 ep m b auth2] \<and>
           length (filter (\<lambda>q. url q = BASE_URL st @ ep) new) = 2 \<and>
           length (filter (\<lambda>q. url q = TOKEN_URL) new) = 1"
proof -
  define q1 where "q1 = api_request st ep m b auth"
  define q3 where "q3 = api_request st2 ep m b auth2"
  from refresh_cases [OF refresh [folded q1_def]] obtain tok' where
    st2: "st2 = st\<lparr>sent := sent st @ [q1, token_request st], currentAccessToken := tok'\<rparr>"
    by auto
  have run: "sageRequest rt ep m b st = (Inr v, st2\<lparr>sent := sent st2 @ [q3]\<rparr>)"
    using tok auth first expired refresh auth2 retry ok3 json
    by (simp add: sageRequest_def fetch_def q1_def q3_def)
  have u: "url q1 = BASE_URL st @ ep" "url q3 = BASE_URL st @ ep"
    by (simp_all add: q1_def q3_def st2)
  have "length (filter (\<lambda>q. url q = BASE_URL st @ ep) [q1, token_request st, q3]) = 2"
    using u BASE_URL_not_token [of st ep] by (simp add: eq_commute [of TOKEN_URL])
  moreover have "length (filter (\<lambda>q. url q = TOKEN_URL) [q1, token_request st, q3]) = 1"
    using u BASE_URL_not_token [of st ep] by simp
  moreover have "st2\<lparr>sent := sent st2 @ [q3]\<rparr> = st2\<lparr>sent := sent st @ [q1, token_request st, q3]\<rparr>"
    by (simp add: st2)
  ultimately show ?thesis
    using run unfolding q1_def q3_def by simp
qed

theorem refresh_then_retry_witness:
  "\<exists>st'. sageRequest (example_runtime [Response unauthorized, Response token_issued, Response contacts_page])
          ''/contacts'' GET None example_module = (Inr (JObj [(''$items'', JArr [])]), st') \<and>
     status unauthorized = 401 \<and> ok token_issued \<and> ok contacts_page \<and>
     map url (sent st') =
       [''https://api.accounting.sage.com/v3.1/contacts'',
        ''https://oauth.accounting.sage.com/token'',
        ''https://api.accounting.sage.com/v3.1/contacts''] \<and>
     currentAccessToken st' = JStr ''fresh''"
proof -
  define rt where "rt = example_runtime [Response unauthorized, Response token_issued, Response contacts_page]"
  define st2 where "st2 = example_module
    \<lparr>sent := [api_request example_module ''/contacts'' GET None ''stale'', token_request example_module],
      currentAccessToken := JStr ''fresh''\<rparr>"
  have tok: "truthy (currentAccessToken example_module)"
    by (simp add: example_defs)
  have auth: "ToString (Number_toString rt) (currentAccessToken example_module) = Inr ''stale''"
    by (simp add: example_defs)
  have first: "network rt (length (sent example_module))
                 (api_request example_module ''/contacts'' GET None ''stale'') = Response unauthorized"
    by (simp add: rt_def example_defs)
  have expired: "status unauthorized = 401"
    by (simp add: example_defs)
  have refresh: "refreshAccessToken rt
      (example_module\<lparr>sent := sent example_module @ [api_request example_module ''/contacts'' GET None ''stale'']\<rparr>)
        = (Inr (), st2)"
    by (simp add: rt_def st2_def refreshAccessToken_def fetch_def ok_def example_defs token_request_def)
  have auth2: "ToString (Number_toString rt) (currentAccessToken st2) = Inr ''fresh''"
    by (simp add: st2_def)
  have retry: "network rt (length (sent st2)) (api_request st2 ''/contacts'' GET None ''fresh'')
                 = Response contacts_page"
    by (simp add: rt_def st2_def example_defs)
  have ok3: "ok contacts_page"
    by (simp add: ok_def example_defs)
  have json: "body_json contacts_page = Inr (JObj [(''$items'', JArr [])])"
    by (simp add: example_defs)
  from refresh_then_retry [OF tok auth first expired refresh auth2 retry ok3 json]
  show ?thesis
    unfolding rt_def [symmetric]
    by (auto simp: st2_def ok_def example_defs BASE_URL_def API_BASE_URLS_def TOKEN_URL_def)
qed

section \<open>One refresh per call\<close>

text \<open>
  Claim C2. One gateway call attempts at most one refresh: whatever the network does, the
  call sends at most one request to the token endpoint and at most two to the resource
  endpoint (three requests in all; the refresh procedure is the only sender of token
  requests, and \<open>sageRequest\<close> calls it on one path only, once). In particular, when
  the retried request is answered 401 again, the call fails with the error
  \<^verbatim>\<open>Sage API error: 401 <status text>\<close>, and its log ends with the retry: no second
  token request, no third resource request.
\<close>

theorem single_refresh_per_call:
  "(\<exists>new. sent (snd (sageRequest rt ep m b st)) = sent st @ new \<and>
      length (filter (\<lambda>q. url q = TOKEN_URL) new) \<le> 1 \<and>
      length (filter (\<lambda>q. url q = BASE_URL st @ ep) new) \<le> 2 \<and>
      length new \<le> 3) \<and>
   (truthy (currentAccessToken st) \<and>
    ToString (Number_toString rt) (currentAccessToken st) = Inr auth \<and>
    network rt (length (sent st)) (api_request st ep m b auth) = Response r1 \<and>
    status r1 = 401 \<and>
    refreshAccessToken rt (st\<lparr>sent := sent st @ [api_request st ep m b auth]\<rparr>) = (Inr (), st2) \<and>
    ToString (Number_toString rt) (currentAccessToken st2) = Inr auth2 \<and>
    network rt (length (sent st2)) (api_request st2 ep m b auth2) = Response r3 \<and>
    status r3 = 401
    \<longrightarrow> sageRequest rt ep m b st =
          (Inl (Error (''Sage API error: 401 '' @ statusText r3)),
           st2\<lparr>sent := sent st @
             [api_request st ep m b auth, token_request st, api_request st2 ep m b auth2]\<rparr>))"
proof (rule conjI)
  obtain r st' where run: "sageRequest rt ep m b st = (r, st')"
    by (cases "sageRequest rt ep m b st") auto
  from sageRequest_trace [OF run] obtain new tok where
    st': "st' = st\<lparr>sent := sent st @ new, currentAccessToken := tok\<rparr>" and
    new: "new = [] \<or> (\<exists>r1. new = [r1] \<and> url r1 = BASE_URL st @ ep)
            \<or> (\<exists>r1. new = [r1, token_request st] \<and> url r1 = BASE_URL st @ ep)
            \<or> (\<exists>r1 r2. new = [r1, token_request st, r2] \<and> url r1 = BASE_URL st @ ep
                  \<and> url r2 = BASE_URL st @ ep)"
    by blast
  have "length (filter (\<lambda>q. url q = TOKEN_URL) new) \<le> 1"
    using new BASE_URL_not_token [of st ep] by auto
  moreover have "length (filter (\<lambda>q. url q = BASE_URL st @ ep) new) \<le> 2"
    using new BASE_URL_not_token [of st ep] by (auto simp: eq_commute [of TOKEN_URL])
  moreover have "length new \<le> 3"
    using new by auto
  moreover have "sent (snd (sageRequest rt ep m b st)) = sent st @ new"
    by (simp add: run st')
  ultimately show "\<exists>new. sent (snd (sageRequest rt ep m b st)) = sent st @ new \<and>
      length (filter (\<lambda>q. url q = TOKEN_URL) new) \<le> 1 \<and>
      length (filter (\<lambda>q. url q = BASE_URL st @ ep) new) \<le> 2 \<and>
      length new \<le> 3"
    by blast
next
  show "truthy (currentAccessToken st) \<and>
    ToString (Number_toString rt) (currentAccessToken st) = Inr auth \<and>
    network rt (length (sent st)) (api_request st ep m b auth) = Response r1 \<and>
    status r1 = 401 \<and>
    refreshAccessToken rt (st\<lparr>sent := sent st @ [api_request st ep m b auth]\<rparr>) = (Inr (), st2) \<and>
    ToString (Number_toString rt) (currentAccessToken st2) = Inr auth2 \<and>
    network rt (length (sent st2)) (api_request st2 ep m b auth2) = Response r3 \<and>
    status r3 = 401
    \<longrightarrow> sageRequest rt ep m b st =
          (Inl (Error (''Sage API error: 401 '' @ statusText r3)),
           st2\<lparr>sent := sent st @
             [api_request st ep m b auth, token_request st, api_request st2 ep m b auth2]\<rparr>)"
  proof (intro impI, elim conjE)
    assume tok: "truthy (currentAccessToken st)"
      and auth: "ToString (Number_toString rt) (currentAccessToken st) = Inr auth"
      and first: "network rt (length (sent st)) (api_request st ep m b auth) = Response r1"
      and expired: "status r1 = 401"
      and refresh: "refreshAccessToken rt (st\<lparr>sent := sent st @ [api_request st ep m b auth]\<rparr>)
                      = (Inr (), st2)"
      and auth2: "ToString (Number_toString rt) (currentAccessToken st2) = Inr auth2"
      and retry: "network rt (length (sent st2)) (api_request st2 ep m b auth2) = Response r3"
      and again: "status r3 = 401"
    from refresh_cases [OF refresh] obtain tok' where
      st2: "st2 = st\<lparr>sent := sent st @ [api_request st ep m b auth, token_request st],
                     currentAccessToken := tok'\<rparr>"
      by auto
    have "\<not> ok r3" using again by (simp add: ok_def)
    then have "sageRequest rt ep m b st =
        (Inl (Error (''Sage API error: 401 '' @ statusText r3)),
         st2\<lparr>sent := sent st2 @ [api_request st2 ep m b auth2]\<rparr>)"
      using tok auth first expired refresh auth2 retry again
      by (simp add: sageRequest_def fetch_def decimal_401)
    moreover have "st2\<lparr>sent := sent st2 @ [api_request st2 ep m b auth2]\<rparr> =
        st2\<lparr>sent := sent st @
             [api_request st ep m b auth, token_request st, api_request st2 ep m b auth2]\<rparr>"
      by (simp add: st2)
    ultimately show "sageRequest rt ep m b st =
          (Inl (Error (''Sage API error: 401 '' @ statusText r3)),
           st2\<lparr>sent := sent st @
             [api_request st ep m b auth, token_request st, api_request st2 ep m b auth2]\<rparr>)"
      by simp
  qed
qed

theorem single_refresh_per_call_witness:
  "status unauthorized = 401 \<and> ok token_issued \<and>
   (\<exists>st'. sageRequest (example_runtime [Response unauthorized, Response token_issued, Response unauthorized])
          ''/contacts'' GET None example_module
        = (Inl (Error ''Sage API error: 401 Unauthorized''), st') \<and>
     map url (sent st') =
       [''https://api.accounting.sage.com/v3.1/contacts'',
        ''https://oauth.accounting.sage.com/token'',
        ''https://api.accounting.sage.com/v3.1/contacts''])"
proof -
  define rt where "rt = example_runtime [Response unauthorized, Response token_issued, Response unauthorized]"
  define st2 where "st2 = example_module
    \<lparr>sent := [api_request example_module ''/contacts'' GET None ''stale'', token_request example_module],
      currentAccessToken := JStr ''fresh''\<rparr>"
  have tok: "truthy (currentAccessToken example_module)"
    by (simp add: example_defs)
  have auth: "ToString (Number_toString rt) (currentAccessToken example_module) = Inr ''stale''"
    by (simp add: example_defs)
  have first: "network rt (length (sent example_module))
                 (api_request example_module ''/contacts'' GET None ''stale'') = Response unauthorized"
    by (simp add: rt_def example_defs)
  have expired: "status unauthorized = 401"
    by (simp add: example_defs)
  have refresh: "refreshAccessToken rt
      (example_module\<lparr>sent := sent example_module @ [api_request example_module ''/contacts'' GET None ''stale'']\<rparr>)
        = (Inr (), st2)"
    by (simp add: rt_def st2_def refreshAccessToken_def fetch_def ok_def example_defs token_request_def)
  have auth2: "ToString (Number_toString rt) (currentAccessToken st2) = Inr ''fresh''"
    by (simp add: st2_def)
  have retry: "network rt (length (sent st2)) (api_request st2 ''/contacts'' GET None ''fresh'')
                 = Response unauthorized"
    by (simp add: rt_def st2_def example_defs)
  from single_refresh_per_call [of rt "''/contacts''" GET None example_module "''stale''"
      unauthorized st2 "''fresh''" unauthorized]
    tok auth first expired refresh auth2 retry
  have "sageRequest rt ''/contacts'' GET None example_module =
          (Inl (Error (''Sage API error: 401 '' @ statusText unauthorized)),
           st2\<lparr>sent := sent example_module @
             [api_request example_module ''/contacts'' GET None ''stale'', token_request example_module,
              api_request st2 ''/contacts'' GET None ''fresh'']\<rparr>)"
    by blast
  then show ?thesis
    unfolding rt_def [symmetric]
    by (simp add: st2_def ok_def example_defs BASE_URL_def API_BASE_URLS_def TOKEN_URL_def)
qed

section \<open>A failed refresh\<close>

text \<open>
  Claim C3. A tool call reaches the gateway and its first response has status 401. If the
  refresh cannot be attempted (the refresh token, the client id or the client secret is
  empty), the tool result is error-flagged with the message of the refresh procedure,
  and the log holds the first request only. If the token endpoint answers with a status
  outside 2xx, the tool result is error-flagged with
  \<^verbatim>\<open>Token refresh failed: <status> <status text>\<close>, and the log holds the first request
  and the token request. In both cases no retry is sent to the resource endpoint.
\<close>

theorem refresh_failure_is_final:
  assumes tool: "tool_of_name name = Some t"
    and built: "prepare rt t args = Inr c"
    and tok: "truthy (currentAccessToken st)"
    and auth: "ToString (Number_toString rt) (currentAccessToken st) = Inr auth"
    and first: "network rt (length (sent st))
                  (api_request st (endpoint c) (http_verb c) (body c) auth) = Response r1"
    and expired: "status r1 = 401"
  shows "(SAGE_REFRESH_TOKEN st = [] \<or> SAGE_CLIENT_ID st = [] \<or> SAGE_CLIENT_SECRET st = []
          \<longrightarrow> CallTool rt name args st =
                (\<lparr> content_text = ''Error: '' @ REFRESH_ERROR, isError = True \<rparr>,
                 st\<lparr>sent := sent st @ [api_request st (endpoint c) (http_verb c) (body c) auth]\<rparr>))
       \<and> (SAGE_REFRESH_TOKEN st \<noteq> [] \<and> SAGE_CLIENT_ID st \<noteq> [] \<and> SAGE_CLIENT_SECRET st \<noteq> [] \<and>
          network rt (Suc (length (sent st))) (token_request st) = Response r2 \<and> \<not> ok r2
          \<longrightarrow> CallTool rt name args st =
                (\<lparr> content_text = ''Error: Token refresh failed: '' @ decimal (status r2) @ '' ''
                       @ statusText r2, isError = True \<rparr>,
                 st\<lparr>sent := sent st @ [api_request st (endpoint c) (http_verb c) (body c) auth,
                                        token_request st]\<rparr>))"
  using assms
  by (simp add: CallTool_def dispatch_def sageRequest_def refreshAccessToken_def fetch_def
        REFRESH_ERROR_def)

text \<open>The two branches at work: a process without a refresh token, and a token
  endpoint that answers 400.\<close>

theorem refresh_failure_is_final_witness:
  "CallTool (example_runtime [Response unauthorized]) ''sage_list_contacts''
       (Some [''search'' \<mapsto> JStr ''acme'']) example_module_no_refresh =
     (\<lparr> content_text = ''Error: '' @ REFRESH_ERROR, isError = True \<rparr>,
      example_module_no_refresh
        \<lparr>sent := [api_request example_module_no_refresh ''/contacts?search=acme'' GET None ''stale'']\<rparr>) \<and>
   CallTool (example_runtime [Response unauthorized, Response token_refused]) ''sage_list_contacts''
       (Some [''search'' \<mapsto> JStr ''acme'']) example_module =
     (\<lparr> content_text = ''Error: Token refresh failed: 400 Bad Request'', isError = True \<rparr>,
      example_module
        \<lparr>sent := [api_request example_module ''/contacts?search=acme'' GET None ''stale'',
                  token_request example_module]\<rparr>)"
proof -
  define c where "c = \<lparr> path = ''/contacts'', queryParams = [(''search'', ''acme'')],
                        http_verb = GET, body = None \<rparr>"
  define args where "args = Some [''search'' \<mapsto> JStr ''acme'']"
  have ep: "endpoint c = ''/contacts?search=acme''"
    by (simp add: c_def endpoint_def urlencode_def urlencode_byte_def)
  have c: "http_verb c = GET" "body c = None"
    by (simp_all add: c_def)
  have tool: "tool_of_name ''sage_list_contacts'' = Some sage_list_contacts"
    by (simp add: tool_of_name_def switch_cases_def)
  have built: "prepare rt sage_list_contacts args = Inr c" for rt
    by (simp add: prepare_def args_def c_def listing_def param_def)
  have "CallTool (example_runtime [Response unauthorized]) ''sage_list_contacts'' args
          example_module_no_refresh =
     (\<lparr> content_text = ''Error: '' @ REFRESH_ERROR, isError = True \<rparr>,
      example_module_no_refresh
        \<lparr>sent := [api_request example_module_no_refresh ''/contacts?search=acme'' GET None ''stale'']\<rparr>)"
    using refresh_failure_is_final [of "''sage_list_contacts''" sage_list_contacts
        "example_runtime [Response unauthorized]" args c example_module_no_refresh "''stale''"
        unauthorized, OF tool built]
    by (simp add: ep c example_defs)
  moreover
  have "CallTool (example_runtime [Response unauthorized, Response token_refused])
          ''sage_list_contacts'' args example_module =
     (\<lparr> content_text = ''Error: Token refresh failed: 400 Bad Request'', isError = True \<rparr>,
      example_module
        \<lparr>sent := [api_request example_module ''/contacts?search=acme'' GET None ''stale'',
                  token_request example_module]\<rparr>)"
    using refresh_failure_is_final [of "''sage_list_contacts''" sage_list_contacts
        "example_runtime [Response unauthorized, Response token_refused]" args c example_module
        "''stale''" unauthorized token_refused, OF tool built]
    by (simp add: ep c example_defs ok_def decimal_400)
  ultimately show ?thesis
    unfolding args_def by simp
qed

section \<open>No access token\<close>

text \<open>
  Claim C4, as the code has it. With no access token configured (the token is empty, or
  otherwise falsy), every tool call, whatever its name and arguments, returns an
  error-flagged result and leaves the module state, log included, as it was: no request
  is sent, to either endpoint. The text of the result is the message of the gateway's
  token check exactly when the call gets as far as the gateway, that is when the name is
  one of the switch and the case builds its arguments without throwing.
\<close>

theorem no_access_token_no_request:
  assumes "\<not> truthy (currentAccessToken st)"
  shows "isError (fst (CallTool rt name args st)) \<and>
         snd (CallTool rt name args st) = st \<and>
         (\<forall>t c. tool_of_name name = Some t \<and> prepare rt t args = Inr c \<longrightarrow>
            content_text (fst (CallTool rt name args st)) = ''Error: '' @ AUTH_ERROR)"
  using assms
  by (auto simp: CallTool_def dispatch_def sageRequest_def AUTH_ERROR_def
        split: option.splits sum.splits)

theorem no_access_token_no_request_witness:
  "\<not> truthy (currentAccessToken example_module_no_token) \<and>
   CallTool (example_runtime []) ''sage_list_contacts'' (Some [''search'' \<mapsto> JStr ''acme''])
       example_module_no_token =
     (\<lparr> content_text = ''Error: '' @ AUTH_ERROR, isError = True \<rparr>, example_module_no_token)"
proof -
  have h: "\<not> truthy (currentAccessToken example_module_no_token)"
    by (simp add: example_defs)
  have tool: "tool_of_name ''sage_list_contacts'' = Some sage_list_contacts"
    by (simp add: tool_of_name_def switch_cases_def)
  have built: "prepare (example_runtime []) sage_list_contacts (Some [''search'' \<mapsto> JStr ''acme''])
      = Inr \<lparr> path = ''/contacts'', queryParams = [(''search'', ''acme'')],
                        http_verb = GET, body = None \<rparr>"
    by (simp add: prepare_def listing_def param_def)
  from no_access_token_no_request [OF h, of "example_runtime []" "''sage_list_contacts''"
      "Some [''search'' \<mapsto> JStr ''acme'']"] tool built
  have "isError (fst (CallTool (example_runtime []) ''sage_list_contacts''
           (Some [''search'' \<mapsto> JStr ''acme'']) example_module_no_token))"
    and "snd (CallTool (example_runtime []) ''sage_list_contacts''
           (Some [''search'' \<mapsto> JStr ''acme'']) example_module_no_token) = example_module_no_token"
    and "content_text (fst (CallTool (example_runtime []) ''sage_list_contacts''
           (Some [''search'' \<mapsto> JStr ''acme'']) example_module_no_token)) = ''Error: '' @ AUTH_ERROR"
    by blast+
  then show ?thesis
    using h by (cases "CallTool (example_runtime []) ''sage_list_contacts''
           (Some [''search'' \<mapsto> JStr ''acme'']) example_module_no_token") auto
qed

text \<open>
  Without the proviso the claim fails. An unknown tool name reaches \<^verbatim>\<open>default\<close> and its
  result names the tool; \<^verbatim>\<open>sage_create_sales_invoice\<close> without \<^verbatim>\<open>line_items\<close> throws at
  \<^verbatim>\<open>params.line_items.map\<close>, before the gateway is called. Neither text contains the
  message of the token check.
\<close>

theorem no_access_token_other_errors:
  "\<not> truthy (currentAccessToken example_module_no_token) \<and>
   CallTool (example_runtime []) ''sage_delete_contact'' (Some Map.empty) example_module_no_token =
     (\<lparr> content_text = ''Error: Unknown tool: sage_delete_contact'', isError = True \<rparr>,
      example_module_no_token) \<and>
   \<not> sublist AUTH_ERROR ''Error: Unknown tool: sage_delete_contact'' \<and>
   CallTool (example_runtime []) ''sage_create_sales_invoice''
       (Some [''contact_id'' \<mapsto> JStr ''C1'']) example_module_no_token =
     (\<lparr> content_text = ''Error: Cannot read properties of undefined (reading '' @ [CHR 0x27]
          @ ''map'' @ [CHR 0x27] @ '')'', isError = True \<rparr>,
      example_module_no_token) \<and>
   \<not> sublist AUTH_ERROR (''Error: Cannot read properties of undefined (reading '' @ [CHR 0x27]
          @ ''map'' @ [CHR 0x27] @ '')'')"
proof -
  have len: "length AUTH_ERROR = 72"
    by (simp add: AUTH_ERROR_def)
  have short: "\<not> sublist AUTH_ERROR s" if "length s < 72" for s
  proof
    assume "sublist AUTH_ERROR s"
    then have "length AUTH_ERROR \<le> length s" by (rule sublist_length_le)
    with that len show False by simp
  qed
  have "tool_of_name ''sage_delete_contact'' = None"
    by (simp add: tool_of_name_def switch_cases_def)
  then have "CallTool (example_runtime []) ''sage_delete_contact'' (Some Map.empty)
      example_module_no_token =
     (\<lparr> content_text = ''Error: Unknown tool: sage_delete_contact'', isError = True \<rparr>,
      example_module_no_token)"
    by (simp add: CallTool_def dispatch_def)
  moreover have "tool_of_name ''sage_create_sales_invoice'' = Some sage_create_sales_invoice"
    by (simp add: tool_of_name_def switch_cases_def)
  then have "CallTool (example_runtime []) ''sage_create_sales_invoice''
       (Some [''contact_id'' \<mapsto> JStr ''C1'']) example_module_no_token =
     (\<lparr> content_text = ''Error: Cannot read properties of undefined (reading '' @ [CHR 0x27]
          @ ''map'' @ [CHR 0x27] @ '')'', isError = True \<rparr>,
      example_module_no_token)"
    by (simp add: CallTool_def dispatch_def prepare_def Array_map_def param_def)
  moreover have "\<not> truthy (currentAccessToken example_module_no_token)"
    by (simp add: example_defs)
  ultimately show ?thesis
    by (simp add: short)
qed

section \<open>Errors of the external API\<close>

text \<open>The two places where the gateway reports a response outside 2xx: the first
  response (not 401), with the body text, and the response to the retry, without.\<close>

lemma first_response_error:
  assumes "truthy (currentAccessToken st)"
    and "ToString (Number_toString rt) (currentAccessToken st) = Inr auth"
    and "network rt (length (sent st)) (api_request st ep m b auth) = Response r1"
    and "status r1 \<noteq> 401" and "\<not> ok r1"
  shows "sageRequest rt ep m b st =
           (Inl (Error (''Sage API error: '' @ decimal (status r1) @ '' '' @ statusText r1
                   @ '' - '' @ body_text r1)),
            st\<lparr>sent := sent st @ [api_request st ep m b auth]\<rparr>)"
  using assms by (simp add: sageRequest_def fetch_def)

lemma retry_response_error:
  assumes "truthy (currentAccessToken st)"
    and "ToString (Number_toString rt) (currentAccessToken st) = Inr auth"
    and "network rt (length (sent st)) (api_request st ep m b auth) = Response r1"
    and "status r1 = 401"
    and "refreshAccessToken rt (st\<lparr>sent := sent st @ [api_request st ep m b auth]\<rparr>)
           = (Inr (), st2)"
    and "ToString (Number_toString rt) (currentAccessToken st2) = Inr auth2"
    and "network rt (length (sent st2)) (api_request st2 ep m b auth2) = Response r3"
    and "\<not> ok r3"
  shows "sageRequest rt ep m b st =
           (Inl (Error (''Sage API error: '' @ decimal (status r3) @ '' '' @ statusText r3)),
            st2\<lparr>sent := sent st2 @ [api_request st2 ep m b auth2]\<rparr>)"
  using assms by (simp add: sageRequest_def fetch_def)

text \<open>
  Claim C7 asks that every failure of the external API that ends a gateway call carries
  the status code and an excerpt of the response body. The path of the first response
  does that (lines 89 to 92 read \<^verbatim>\<open>response.text()\<close> into the message); the path of
  the retry does not (lines 83 to 85 build the message from the status and the status
  text only). The same answer, 500 with the body \<^verbatim>\<open>database unavailable\<close>, first as the
  first response, then as the response to the retry after a successful refresh:
\<close>

theorem retry_error_has_no_body_excerpt:
  "sageRequest (example_runtime [Response server_error]) ''/contacts'' GET None example_module =
     (Inl (Error ''Sage API error: 500 Internal Server Error - database unavailable''),
      example_module\<lparr>sent := [api_request example_module ''/contacts'' GET None ''stale'']\<rparr>) \<and>
   fst (sageRequest
          (example_runtime [Response unauthorized, Response token_issued, Response server_error])
          ''/contacts'' GET None example_module) =
     Inl (Error ''Sage API error: 500 Internal Server Error'') \<and>
   body_text server_error = ''database unavailable'' \<and>
   \<not> sublist (body_text server_error) ''Sage API error: 500 Internal Server Error''"
proof -
  have a: "sageRequest (example_runtime [Response server_error]) ''/contacts'' GET None example_module =
     (Inl (Error ''Sage API error: 500 Internal Server Error - database unavailable''),
      example_module\<lparr>sent := [api_request example_module ''/contacts'' GET None ''stale'']\<rparr>)"
    by (simp add: sageRequest_def fetch_def ok_def example_defs decimal_500)
  have b: "fst (sageRequest
          (example_runtime [Response unauthorized, Response token_issued, Response server_error])
          ''/contacts'' GET None example_module) =
     Inl (Error ''Sage API error: 500 Internal Server Error'')"
    by (simp add: sageRequest_def refreshAccessToken_def fetch_def ok_def example_defs decimal_500
          token_request_def)
  have c: "\<not> sublist ''database unavailable'' ''Sage API error: 500 Internal Server Error''"
    by (simp add: sublist_Cons_right prefix_Cons)
  show ?thesis using a b c by (simp add: server_error_def)
qed

section \<open>What a refresh changes\<close>

text \<open>
  Claim C8. A successful run of the refresh procedure changes the access token of the
  module state and nothing else of the credential state (the log gains the token
  request): the refresh token, the client id, the client secret and the base URL are
  what they were. The refresh token stays in use: whatever tool calls the process
  handles afterwards, on whatever network, the refresh token is still the original one
  and every request to the token endpoint from this refresh on is the request built
  from the original refresh token, client id and client secret.
\<close>

theorem refresh_replaces_only_access_token:
  assumes "refreshAccessToken rt st = (Inr (), st')"
  shows "st' = st\<lparr>currentAccessToken := currentAccessToken st',
                  sent := sent st @ [token_request st]\<rparr> \<and>
         SAGE_REFRESH_TOKEN st' = SAGE_REFRESH_TOKEN st \<and>
         SAGE_CLIENT_ID st' = SAGE_CLIENT_ID st \<and>
         SAGE_CLIENT_SECRET st' = SAGE_CLIENT_SECRET st \<and>
         BASE_URL st' = BASE_URL st \<and>
         SAGE_REFRESH_TOKEN (serve rt' calls st') = SAGE_REFRESH_TOKEN st \<and>
         (\<forall>q \<in> set (drop (length (sent st)) (sent (serve rt' calls st'))).
            url q = TOKEN_URL \<longrightarrow>
              q = token_request st \<and>
              payload q = FormBody
                [(''grant_type'', ''refresh_token''),
                 (''refresh_token'', SAGE_REFRESH_TOKEN st),
                 (''client_id'', SAGE_CLIENT_ID st),
                 (''client_secret'', SAGE_CLIENT_SECRET st)])"
proof -
  from refresh_cases [OF assms] obtain tok where
    st': "st' = st\<lparr>sent := sent st @ [token_request st], currentAccessToken := tok\<rparr>"
    by auto
  from serve_trace [of rt' calls st'] obtain new tok2 where
    sv: "serve rt' calls st' = st'\<lparr>sent := sent st' @ new, currentAccessToken := tok2\<rparr>" and
    new: "\<forall>q \<in> set new. url q = TOKEN_URL \<longrightarrow> q = token_request st'"
    by blast
  have s1: "sent (serve rt' calls st') = sent st' @ new"
    by (subst sv) simp
  have s2: "sent st' = sent st @ [token_request st]"
    by (subst st') simp
  have "drop (length (sent st)) (sent (serve rt' calls st')) = token_request st # new"
    by (simp add: s1 s2)
  moreover have "token_request st' = token_request st"
    by (simp add: st')
  moreover have "payload (token_request st) = FormBody
                [(''grant_type'', ''refresh_token''),
                 (''refresh_token'', SAGE_REFRESH_TOKEN st),
                 (''client_id'', SAGE_CLIENT_ID st),
                 (''client_secret'', SAGE_CLIENT_SECRET st)]"
    by (simp add: token_request_def)
  moreover have "SAGE_REFRESH_TOKEN (serve rt' calls st') = SAGE_REFRESH_TOKEN st'"
    by (subst sv) simp
  moreover have "st' = st\<lparr>currentAccessToken := currentAccessToken st',
                  sent := sent st @ [token_request st]\<rparr>"
    "SAGE_REFRESH_TOKEN st' = SAGE_REFRESH_TOKEN st"
    "SAGE_CLIENT_ID st' = SAGE_CLIENT_ID st"
    "SAGE_CLIENT_SECRET st' = SAGE_CLIENT_SECRET st"
    "BASE_URL st' = BASE_URL st"
    by (simp_all add: st')
  ultimately show ?thesis
    using new by auto
qed

theorem refresh_replaces_only_access_token_witness:
  "refreshAccessToken (example_runtime [Response token_issued]) example_module =
     (Inr (), example_module\<lparr>currentAccessToken := JStr ''fresh'',
                               sent := [token_request example_module]\<rparr>) \<and>
   map url (sent (serve
       (example_runtime [Response token_issued, Response unauthorized, Response token_issued,
                         Response contacts_page])
       [(''sage_list_contacts'', Some Map.empty)]
       (example_module\<lparr>currentAccessToken := JStr ''fresh'',
                        sent := [token_request example_module]\<rparr>))) =
     [TOKEN_URL, ''https://api.accounting.sage.com/v3.1/contacts'', TOKEN_URL,
      ''https://api.accounting.sage.com/v3.1/contacts''] \<and>
   sent (serve
       (example_runtime [Response token_issued, Response unauthorized, Response token_issued,
                         Response contacts_page])
       [(''sage_list_contacts'', Some Map.empty)]
       (example_module\<lparr>currentAccessToken := JStr ''fresh'',
                        sent := [token_request example_module]\<rparr>)) ! 2 =
     token_request example_module \<and>
   SAGE_REFRESH_TOKEN example_module = ''renew''"
proof -
  define rt' where "rt' = example_runtime
    [Response token_issued, Response unauthorized, Response token_issued, Response contacts_page]"
  define st1 where "st1 = example_module\<lparr>currentAccessToken := JStr ''fresh'',
                               sent := [token_request example_module]\<rparr>"
  define calls where "calls = [(''sage_list_contacts'', Some (Map.empty :: string \<rightharpoonup> jsval))]"
  have run: "refreshAccessToken (example_runtime [Response token_issued]) example_module =
     (Inr (), st1)"
    by (simp add: st1_def refreshAccessToken_def fetch_def ok_def example_defs token_request_def)
  have tool: "tool_of_name ''sage_list_contacts'' = Some sage_list_contacts"
    by (simp add: tool_of_name_def switch_cases_def)
  have built: "prepare rt sage_list_contacts (Some Map.empty) =
      Inr \<lparr> path = ''/contacts'', queryParams = [], http_verb = GET, body = None \<rparr>" for rt
    by (simp add: prepare_def listing_def param_def)
  have log: "sent (serve rt' calls st1) =
      [token_request example_module,
       api_request example_module ''/contacts'' GET None ''fresh'',
       token_request example_module,
       api_request example_module ''/contacts'' GET None ''fresh'']"
    by (simp add: calls_def CallTool_def dispatch_def tool built endpoint_def
          sageRequest_def refreshAccessToken_def fetch_def ok_def
          st1_def rt'_def example_defs token_request_def api_request_def BASE_URL_def)
  from refresh_replaces_only_access_token [OF run, of rt' calls]
  have "\<forall>q \<in> set (drop (length (sent example_module)) (sent (serve rt' calls st1))).
            url q = TOKEN_URL \<longrightarrow> q = token_request example_module"
    by blast
  then have "sent (serve rt' calls st1) ! 2 = token_request example_module"
    by (simp add: log example_defs)
  moreover have "map url (sent (serve rt' calls st1)) =
     [TOKEN_URL, ''https://api.accounting.sage.com/v3.1/contacts'', TOKEN_URL,
      ''https://api.accounting.sage.com/v3.1/contacts'']"
    by (simp add: log BASE_URL_def API_BASE_URLS_def example_defs)
  moreover have "SAGE_REFRESH_TOKEN example_module = ''renew''"
    by (simp add: example_defs)
  ultimately show ?thesis
    using run unfolding rt'_def st1_def calls_def by simp
qed

section \<open>Creating a sales invoice\<close>





section \<open>Absent arguments\<close>

lemma prepare_Some [simp]: "prepare rt t (Some params) = tool_call rt t params"
  by (simp add: prepare_def)

text \<open>The pairs a list case appends: their names are the names of the statements whose
  condition held, and every such statement left its pair.\<close>

lemma appends_keys:
  "appends rt q steps = Inr q' \<Longrightarrow>
     fst ` set q' \<subseteq> fst ` set q \<union> {k. \<exists>v. (True, k, v) \<in> set steps}"
proof (induction steps arbitrary: q)
  case Nil
  then show ?case by auto
next
  case (Cons step steps)
  obtain c k v where step: "step = (c, k, v)" by (cases step)
  show ?case
  proof (cases c)
    case False
    with Cons.prems step have "appends rt q steps = Inr q'" by simp
    from Cons.IH [OF this] show ?thesis by auto
  next
    case True
    with Cons.prems step obtain s where
      "ToString (Number_toString rt) v = Inr s" "appends rt (q @ [(k, s)]) steps = Inr q'"
      by (auto split: sum.splits)
    from Cons.IH [OF this(2)] True step show ?thesis by auto
  qed
qed

lemma appends_mono:
  "appends rt q steps = Inr q' \<Longrightarrow> set q \<subseteq> set q'"
proof (induction steps arbitrary: q)
  case Nil
  then show ?case by auto
next
  case (Cons step steps)
  obtain c k v where step: "step = (c, k, v)" by (cases step)
  show ?case
  proof (cases c)
    case False
    with Cons.prems step have "appends rt q steps = Inr q'" by simp
    from Cons.IH [OF this] show ?thesis .
  next
    case True
    with Cons.prems step obtain s where
      "ToString (Number_toString rt) v = Inr s" "appends rt (q @ [(k, s)]) steps = Inr q'"
      by (auto split: sum.splits)
    from Cons.IH [OF this(2)] show ?thesis by auto
  qed
qed

lemma appends_mem:
  "appends rt q steps = Inr q' \<Longrightarrow> (True, k, v) \<in> set steps \<Longrightarrow>
     \<exists>s. ToString (Number_toString rt) v = Inr s \<and> (k, s) \<in> set q'"
proof (induction steps arbitrary: q)
  case Nil
  then show ?case by auto
next
  case (Cons step steps)
  obtain c' k' v' where step: "step = (c', k', v')" by (cases step)
  show ?case
  proof (cases c')
    case False
    with Cons.prems step have "appends rt q steps = Inr q'" "(True, k, v) \<in> set steps"
      by auto
    then show ?thesis by (rule Cons.IH)
  next
    case True
    with Cons.prems step obtain s where
      s: "ToString (Number_toString rt) v' = Inr s" "appends rt (q @ [(k', s)]) steps = Inr q'"
      by (auto split: sum.splits)
    show ?thesis
    proof (cases "(True, k, v) = step")
      case True
      with step have "k' = k" "v' = v" by auto
      moreover from appends_mono [OF s(2)] have "(k', s) \<in> set q'" by auto
      ultimately show ?thesis using s(1) by auto
    next
      case False
      with Cons.prems have "(True, k, v) \<in> set steps" by auto
      from Cons.IH [OF s(2) this] show ?thesis .
    qed
  qed
qed

lemma listing_Inr:
  "listing rt p steps = Inr c \<Longrightarrow> appends rt [] steps = Inr (queryParams c)"
  by (auto simp: listing_def split: sum.splits)

lemma param_None: "params k = None \<Longrightarrow> param params k = JUndefined"
  by (simp add: param_def)

lemma listing_keys:
  assumes "listing rt p steps = Inr c" and "q \<in> fst ` set (queryParams c)"
  shows "\<exists>v. (True, q, v) \<in> set steps"
  using appends_keys [OF listing_Inr [OF assms(1)]] assms(2) by auto

lemma absent_no_query:
  assumes absent: "params k = None"
    and call: "tool_call rt t params = Inr c"
    and field: "(k, q) \<in> set (query_fields t)"
  shows "q \<notin> fst ` set (queryParams c)"
proof
  assume q: "q \<in> fst ` set (queryParams c)"
  have undef: "param params k = JUndefined" using absent by (rule param_None)
  show False
  proof (cases t)
    case sage_list_contacts
    with call have "listing rt ''/contacts''
       [(truthy (param params ''contact_type'') \<and> param params ''contact_type'' \<noteq> JStr ''all'',
           ''contact_type_id'', param params ''contact_type''),
        (truthy (param params ''search''), ''search'', param params ''search''),
        (truthy (param params ''page''), ''page'', param params ''page''),
        (truthy (param params ''items_per_page''), ''items_per_page'',
           param params ''items_per_page'')] = Inr c"
      by simp
    from listing_keys [OF this q] field undef sage_list_contacts show False by auto
  next
    case sage_list_sales_invoices
    with call have "listing rt ''/sales_invoices''
       [(truthy (param params ''status''), ''status_id'', param params ''status''),
        (truthy (param params ''contact_id''), ''contact_id'', param params ''contact_id''),
        (truthy (param params ''from_date''), ''from_date'', param params ''from_date''),
        (truthy (param params ''to_date''), ''to_date'', param params ''to_date''),
        (truthy (param params ''page''), ''page'', param params ''page''),
        (truthy (param params ''items_per_page''), ''items_per_page'',
           param params ''items_per_page'')] = Inr c"
      by simp
    from listing_keys [OF this q] field undef sage_list_sales_invoices show False by auto
  next
    case sage_list_purchase_invoices
    with call have "listing rt ''/purchase_invoices''
       [(truthy (param params ''status''), ''status_id'', param params ''status''),
        (truthy (param params ''contact_id''), ''contact_id'', param params ''contact_id''),
        (truthy (param params ''from_date''), ''from_date'', param params ''from_date''),
        (truthy (param params ''to_date''), ''to_date'', param params ''to_date''),
        (truthy (param params ''page''), ''page'', param params ''page'')] = Inr c"
      by simp
    from listing_keys [OF this q] field undef sage_list_purchase_invoices show False by auto
  next
    case sage_list_products
    with call have "listing rt ''/products''
       [(truthy (param params ''search''), ''search'', param params ''search''),
        (param params ''active'' \<noteq> JUndefined, ''active'', param params ''active''),
        (truthy (param params ''page''), ''page'', param params ''page'')] = Inr c"
      by simp
    from listing_keys [OF this q] field undef sage_list_products show False by auto
  next
    case sage_list_payments
    with call have "listing rt ''/contact_payments''
       [(truthy (param params ''contact_id''), ''contact_id'', param params ''contact_id''),
        (truthy (param params ''from_date''), ''from_date'', param params ''from_date''),
        (truthy (param params ''to_date''), ''to_date'', param params ''to_date''),
        (truthy (param params ''page''), ''page'', param params ''page'')] = Inr c"
      by simp
    from listing_keys [OF this q] field undef sage_list_payments show False by auto
  next
    case sage_list_ledger_accounts
    with call have "listing rt ''/ledger_accounts''
       [(truthy (param params ''ledger_account_type_id''), ''ledger_account_type_id'',
           param params ''ledger_account_type_id''),
        (truthy (param params ''visible_in''), ''visible_in'', param params ''visible_in'')] = Inr c"
      by simp
    from listing_keys [OF this q] field undef sage_list_ledger_accounts show False by auto
  qed (use field in simp_all)
qed

text \<open>Looking a path up in the document \<open>JSON_stringify\<close> writes, for an object
  literal (its keys are distinct) and for an array.\<close>

lemma map_of_defined:
  "distinct (map fst kvs) \<Longrightarrow>
     map_of (filter (\<lambda>kv. snd kv \<noteq> JUndefined) kvs) k =
       (case map_of kvs k of
          None \<Rightarrow> None
        | Some v \<Rightarrow> if v = JUndefined then None else Some v)"
proof (induction kvs)
  case Nil
  then show ?case by simp
next
  case (Cons kv kvs)
  obtain k' v' where kv: "kv = (k', v')" by (cases kv)
  from Cons.prems kv have fresh: "map_of kvs k' = None"
    by (simp add: map_of_eq_None_iff)
  from Cons have IH: "map_of (filter (\<lambda>kv. snd kv \<noteq> JUndefined) kvs) k =
       (case map_of kvs k of
          None \<Rightarrow> None
        | Some v \<Rightarrow> if v = JUndefined then None else Some v)"
    by simp
  show ?case
    using IH fresh by (auto simp: kv)
qed

lemma map_of_stringified:
  "map_of (map (\<lambda>kv. (fst kv, f (snd kv))) kvs) k = map_option f (map_of kvs k)"
  by (induction kvs) auto

lemma lookup_stringify_Key:
  assumes "distinct (map fst kvs)"
  shows "lookup_path (JSON_stringify (JObj kvs)) (Key k # rest) =
           (case map_of kvs k of
              None \<Rightarrow> None
            | Some v \<Rightarrow> if v = JUndefined then None else lookup_path (JSON_stringify v) rest)"
  by (simp add: map_of_stringified map_of_defined [OF assms] split: option.splits)

lemma lookup_stringify_Index:
  "lookup_path (JSON_stringify (JArr xs)) (Index i # rest) =
     (if i < length xs
      then lookup_path (if xs ! i = JUndefined then JNull else JSON_stringify (xs ! i)) rest
      else None)"
  by simp

lemma payload_posting:
  "request_payload (http_verb (posting p (JObj kvs))) (body (posting p (JObj kvs))) =
     JsonBody (JSON_stringify (JObj kvs))"
  by (simp add: posting_def request_payload_def)

text \<open>The create cases, one by one: an argument that reads as \<^verbatim>\<open>undefined\<close> leaves no
  key at its place in the document, unless the case writes a default for it.\<close>

lemma absent_create_contact:
  "\<forall>(k, p) \<in> set (body_fields sage_create_contact). (sage_create_contact, k) \<notin> set defaulted \<longrightarrow>
     param params k = JUndefined \<longrightarrow>
     (case tool_call rt sage_create_contact params of
        Inl e \<Rightarrow> True
      | Inr c \<Rightarrow> \<exists>doc. request_payload (http_verb c) (body c) = JsonBody doc \<and>
                    lookup_path doc p = None)"
  by (simp add: payload_posting lookup_stringify_Key lookup_stringify_Index defaulted_def
        Array_map_def
        split: sum.splits del: JSON_stringify.simps)

lemma absent_create_sales_invoice:
  "\<forall>(k, p) \<in> set (body_fields sage_create_sales_invoice). (sage_create_sales_invoice, k) \<notin> set defaulted \<longrightarrow>
     param params k = JUndefined \<longrightarrow>
     (case tool_call rt sage_create_sales_invoice params of
        Inl e \<Rightarrow> True
      | Inr c \<Rightarrow> \<exists>doc. request_payload (http_verb c) (body c) = JsonBody doc \<and>
                    lookup_path doc p = None)"
  by (simp add: payload_posting lookup_stringify_Key lookup_stringify_Index defaulted_def
        Array_map_def
        split: sum.splits del: JSON_stringify.simps)

lemma absent_create_product:
  "\<forall>(k, p) \<in> set (body_fields sage_create_product). (sage_create_product, k) \<notin> set defaulted \<longrightarrow>
     param params k = JUndefined \<longrightarrow>
     (case tool_call rt sage_create_product params of
        Inl e \<Rightarrow> True
      | Inr c \<Rightarrow> \<exists>doc. request_payload (http_verb c) (body c) = JsonBody doc \<and>
                    lookup_path doc p = None)"
  by (simp add: payload_posting lookup_stringify_Key lookup_stringify_Index defaulted_def
        Array_map_def
        split: sum.splits del: JSON_stringify.simps)

lemma absent_create_other_payment:
  "\<forall>(k, p) \<in> set (body_fields sage_create_other_payment). (sage_create_other_payment, k) \<notin> set defaulted \<longrightarrow>
     param params k = JUndefined \<longrightarrow>
     (case tool_call rt sage_create_other_payment params of
        Inl e \<Rightarrow> True
      | Inr c \<Rightarrow> \<exists>doc. request_payload (http_verb c) (body c) = JsonBody doc \<and>
                    lookup_path doc p = None)"
  by (simp add: payload_posting lookup_stringify_Key lookup_stringify_Index defaulted_def
        Array_map_def
        split: sum.splits del: JSON_stringify.simps)

lemma absent_create_other_receipt:
  "\<forall>(k, p) \<in> set (body_fields sage_create_other_receipt). (sage_create_other_receipt, k) \<notin> set defaulted \<longrightarrow>
     param params k = JUndefined \<longrightarrow>
     (case tool_call rt sage_create_other_receipt params of
        Inl e \<Rightarrow> True
      | Inr c \<Rightarrow> \<exists>doc. request_payload (http_verb c) (body c) = JsonBody doc \<and>
                    lookup_path doc p = None)"
  by (simp add: payload_posting lookup_stringify_Key lookup_stringify_Index defaulted_def
        Array_map_def
        split: sum.splits del: JSON_stringify.simps)

lemma absent_create_purchase_invoice:
  "\<forall>(k, p) \<in> set (body_fields sage_create_purchase_invoice). (sage_create_purchase_invoice, k) \<notin> set defaulted \<longrightarrow>
     param params k = JUndefined \<longrightarrow>
     (case tool_call rt sage_create_purchase_invoice params of
        Inl e \<Rightarrow> True
      | Inr c \<Rightarrow> \<exists>doc. request_payload (http_verb c) (body c) = JsonBody doc \<and>
                    lookup_path doc p = None)"
  by (simp add: payload_posting lookup_stringify_Key lookup_stringify_Index defaulted_def
        Array_map_def
        split: sum.splits del: JSON_stringify.simps)

lemma absent_create_purchase_invoice_payment:
  "\<forall>(k, p) \<in> set (body_fields sage_create_purchase_invoice_payment). (sage_create_purchase_invoice_payment, k) \<notin> set defaulted \<longrightarrow>
     param params k = JUndefined \<longrightarrow>
     (case tool_call rt sage_create_purchase_invoice_payment params of
        Inl e \<Rightarrow> True
      | Inr c \<Rightarrow> \<exists>doc. request_payload (http_verb c) (body c) = JsonBody doc \<and>
                    lookup_path doc p = None)"
  by (simp add: payload_posting lookup_stringify_Key lookup_stringify_Index defaulted_def
        Array_map_def
        split: sum.splits del: JSON_stringify.simps)

lemma absent_no_body_key:
  assumes absent: "params k = None"
    and call: "tool_call rt t params = Inr c"
    and field: "(k, p) \<in> set (body_fields t)"
    and nodef: "(t, k) \<notin> set defaulted"
  shows "\<exists>doc. request_payload (http_verb c) (body c) = JsonBody doc \<and> lookup_path doc p = None"
proof -
  have undef: "param params k = JUndefined" using absent by (rule param_None)
  have "\<forall>(k, p) \<in> set (body_fields t). (t, k) \<notin> set defaulted \<longrightarrow>
     param params k = JUndefined \<longrightarrow>
     (case tool_call rt t params of
        Inl e \<Rightarrow> True
      | Inr c \<Rightarrow> \<exists>doc. request_payload (http_verb c) (body c) = JsonBody doc \<and>
                    lookup_path doc p = None)"
  proof (cases t)
    case sage_create_contact
    then show ?thesis using absent_create_contact by blast
  next
    case sage_create_sales_invoice
    then show ?thesis using absent_create_sales_invoice by blast
  next
    case sage_create_product
    then show ?thesis using absent_create_product by blast
  next
    case sage_create_other_payment
    then show ?thesis using absent_create_other_payment by blast
  next
    case sage_create_other_receipt
    then show ?thesis using absent_create_other_receipt by blast
  next
    case sage_create_purchase_invoice
    then show ?thesis using absent_create_purchase_invoice by blast
  next
    case sage_create_purchase_invoice_payment
    then show ?thesis using absent_create_purchase_invoice_payment by blast
  qed simp_all
  with field nodef undef call show ?thesis by fastforce
qed

lemma no_fields_nothing_sent:
  assumes "tool_call rt t params = Inr c"
  shows "(query_fields t = [] \<longrightarrow> queryParams c = []) \<and>
         (body_fields t = [] \<longrightarrow> request_payload (http_verb c) (body c) = NoBody)"
  using assms
  by (cases t)
     (auto simp: listing_def getting_def posting_def request_payload_def split: sum.splits)

text \<open>What is written for an absent argument that has a default, and the wrapper
  \<^verbatim>\<open>main_address\<close>, written whatever the arguments are.\<close>

lemma stringify_atoms:
  "JSON_stringify (JArr []) = JArr []"
  "JSON_stringify (JStr s) = JStr s"
  by simp_all

lemma default_create_contact:
  "param params ''contact_type_ids'' = JUndefined \<Longrightarrow>
     (case tool_call rt sage_create_contact params of
        Inl e \<Rightarrow> True
      | Inr c \<Rightarrow> \<exists>doc. request_payload (http_verb c) (body c) = JsonBody doc \<and>
                    lookup_path doc [Key ''contact'', Key ''contact_type_ids''] = Some (JArr []))"
  by (simp add: payload_posting lookup_stringify_Key js_or_def stringify_atoms
        del: JSON_stringify.simps)

lemma default_create_sales_invoice:
  "param params ''date'' = JUndefined \<Longrightarrow>
     (case tool_call rt sage_create_sales_invoice params of
        Inl e \<Rightarrow> True
      | Inr c \<Rightarrow> \<exists>doc. request_payload (http_verb c) (body c) = JsonBody doc \<and>
                    lookup_path doc [Key ''sales_invoice'', Key ''date''] = Some (JStr (today rt)))"
  by (simp add: payload_posting lookup_stringify_Key js_or_def stringify_atoms
        split: sum.splits del: JSON_stringify.simps)

lemma default_create_purchase_invoice:
  "param params ''date'' = JUndefined \<Longrightarrow>
     (case tool_call rt sage_create_purchase_invoice params of
        Inl e \<Rightarrow> True
      | Inr c \<Rightarrow> \<exists>doc. request_payload (http_verb c) (body c) = JsonBody doc \<and>
                    lookup_path doc [Key ''purchase_invoice'', Key ''date''] = Some (JStr (today rt)))"
  by (simp add: payload_posting lookup_stringify_Key js_or_def stringify_atoms
        split: sum.splits del: JSON_stringify.simps)

lemma default_is_sent:
  assumes absent: "params k = None"
    and call: "tool_call rt t params = Inr c"
    and field: "(k, p) \<in> set (body_fields t)"
    and dflt: "((t, k), d) \<in> set (default_values rt)"
  shows "\<exists>doc. request_payload (http_verb c) (body c) = JsonBody doc \<and> lookup_path doc p = Some d"
proof -
  have undef: "param params k = JUndefined" using absent by (rule param_None)
  from dflt consider
      (contact) "t = sage_create_contact" "k = ''contact_type_ids''" "d = JArr []"
    | (sales) "t = sage_create_sales_invoice" "k = ''date''" "d = JStr (today rt)"
    | (purchase) "t = sage_create_purchase_invoice" "k = ''date''" "d = JStr (today rt)"
    by (auto simp: default_values_def)
  then show ?thesis
  proof cases
    case contact
    with field have "p = [Key ''contact'', Key ''contact_type_ids'']" by simp
    with default_create_contact [of params rt] undef call contact show ?thesis by simp
  next
    case sales
    with field have "p = [Key ''sales_invoice'', Key ''date'']" by simp
    with default_create_sales_invoice [of params rt] undef call sales show ?thesis by simp
  next
    case purchase
    with field have "p = [Key ''purchase_invoice'', Key ''date'']" by simp
    with default_create_purchase_invoice [of params rt] undef call purchase show ?thesis by simp
  qed
qed

lemma defaulted_default_values: "defaulted = map fst (default_values rt)"
  by (simp add: defaulted_def default_values_def)

lemma main_address_is_sent:
  assumes "tool_call rt sage_create_contact params = Inr c"
  shows "\<exists>doc kvs. request_payload (http_verb c) (body c) = JsonBody doc \<and>
           lookup_path doc [Key ''contact'', Key ''main_address''] = Some (JObj kvs) \<and>
           (params ''address_line_1'' = None \<and> params ''city'' = None \<and>
            params ''postal_code'' = None \<and> params ''country_id'' = None \<longrightarrow> kvs = [])"
proof -
  define address where "address =
    [(''address_line_1'', param params ''address_line_1''),
     (''city'', param params ''city''),
     (''postal_code'', param params ''postal_code''),
     (''country_id'', param params ''country_id'')]"
  define kvs where "kvs = map (\<lambda>kv. (fst kv, JSON_stringify (snd kv)))
            (filter (\<lambda>kv. snd kv \<noteq> JUndefined) address)"
  have s: "JSON_stringify (JObj address) = JObj kvs"
    by (simp add: kvs_def)
  from assms have c: "c = posting ''/contacts''
       (JObj
         [(''contact'', JObj
            [(''name'', param params ''name''),
             (''contact_type_ids'', js_or (param params ''contact_type_ids'') (JArr [])),
             (''reference'', param params ''reference''),
             (''main_address'', JObj address),
             (''email'', param params ''email''),
             (''telephone'', param params ''telephone'')])])"
    by (simp add: address_def)
  have "lookup_path (JSON_stringify (JObj
         [(''contact'', JObj
            [(''name'', param params ''name''),
             (''contact_type_ids'', js_or (param params ''contact_type_ids'') (JArr [])),
             (''reference'', param params ''reference''),
             (''main_address'', JObj address),
             (''email'', param params ''email''),
             (''telephone'', param params ''telephone'')])]))
         [Key ''contact'', Key ''main_address''] = Some (JObj kvs)"
    by (simp add: lookup_stringify_Key s del: JSON_stringify.simps)
  moreover have "params ''address_line_1'' = None \<and> params ''city'' = None \<and>
            params ''postal_code'' = None \<and> params ''country_id'' = None \<longrightarrow> kvs = []"
    by (simp add: kvs_def address_def param_def)
  ultimately show ?thesis
    unfolding c payload_posting by blast
qed

text \<open>The lines written for the items of an array argument: line \<open>i\<close> is built from
  item \<open>i\<close>, and a field the item does not have leaves no key in the line.\<close>

lemma mapM_nth:
  "mapM f xs = Inr ys \<Longrightarrow>
     length ys = length xs \<and> (\<forall>i < length xs. f (xs ! i) = Inr (ys ! i))"
proof (induction xs arbitrary: ys)
  case Nil
  then show ?case by simp
next
  case (Cons x xs)
  from Cons.prems obtain y ys' where
    y: "f x = Inr y" and ys': "mapM f xs = Inr ys'" and ys: "ys = y # ys'"
    by (auto split: sum.splits)
  from Cons.IH [OF ys'] have
    len: "length ys' = length xs" and nth: "\<forall>i < length xs. f (xs ! i) = Inr (ys' ! i)"
    by simp_all
  show ?case
  proof (intro conjI allI impI)
    show "length ys = length (x # xs)" using len ys by simp
  next
    fix i assume "i < length (x # xs)"
    then show "f ((x # xs) ! i) = Inr (ys ! i)"
      using y nth ys by (cases i) simp_all
  qed
qed

lemma Array_map_nth:
  assumes "Array_map src (JArr items) f = Inr lines" and "i < length items"
  shows "\<exists>ys. lines = JArr ys \<and> length ys = length items \<and> f (items ! i) = Inr (ys ! i)"
proof -
  from assms(1) obtain ys where ys: "mapM f items = Inr ys" "lines = JArr ys"
    by (auto simp: Array_map_def split: sum.splits)
  from mapM_nth [OF ys(1)] assms(2) ys(2) show ?thesis by simp
qed



lemma invoice_line_fields:
  "get_prop item ''description'' = Inr description \<Longrightarrow>
   \<forall>(f, key) \<in> set [(''description'', ''description''), (''quantity'', ''quantity''),
        (''unit_price'', ''unit_price''), (''tax_rate_id'', ''tax_rate_id''),
        (''ledger_account_id'', ''ledger_account_id'')].
     get_prop item f = Inr JUndefined \<longrightarrow>
     lookup_path (JSON_stringify (JObj
            [(''description'', description),
             (''quantity'', read_prop item ''quantity''),
             (''unit_price'', read_prop item ''unit_price''),
             (''tax_rate_id'', read_prop item ''tax_rate_id''),
             (''ledger_account_id'', read_prop item ''ledger_account_id'')])) [Key key] = None"
  by (simp add: lookup_stringify_Key read_prop_def del: JSON_stringify.simps)

lemma invoice_line_absent:
  assumes "invoice_line item = Inr line"
    and "(f, key) \<in> set [(''description'', ''description''), (''quantity'', ''quantity''),
        (''unit_price'', ''unit_price''), (''tax_rate_id'', ''tax_rate_id''),
        (''ledger_account_id'', ''ledger_account_id'')]"
    and "get_prop item f = Inr JUndefined"
  shows "line \<noteq> JUndefined \<and> lookup_path (JSON_stringify line) [Key key] = None"
proof -
  from assms(1) obtain description where
    d: "get_prop item ''description'' = Inr description" and
    line: "line = JObj
            [(''description'', description),
             (''quantity'', read_prop item ''quantity''),
             (''unit_price'', read_prop item ''unit_price''),
             (''tax_rate_id'', read_prop item ''tax_rate_id''),
             (''ledger_account_id'', read_prop item ''ledger_account_id'')]"
    by (cases "get_prop item ''description''") (simp_all add: invoice_line_def)
  from invoice_line_fields [OF d] assms(2,3)
  have "lookup_path (JSON_stringify line) [Key key] = None"
    unfolding line by blast
  then show ?thesis by (simp add: line)
qed

lemma allocated_artefact_fields:
  "get_prop alloc ''invoice_id'' = Inr invoice_id \<Longrightarrow>
   \<forall>(f, key) \<in> set [(''invoice_id'', ''artefact_id''), (''amount'', ''amount'')].
     get_prop alloc f = Inr JUndefined \<longrightarrow>
     lookup_path (JSON_stringify (JObj
        [(''artefact_id'', invoice_id), (''amount'', read_prop alloc ''amount'')])) [Key key] = None"
  by (simp add: lookup_stringify_Key read_prop_def del: JSON_stringify.simps)

lemma allocated_artefact_absent:
  assumes "allocated_artefact alloc = Inr line"
    and "(f, key) \<in> set [(''invoice_id'', ''artefact_id''), (''amount'', ''amount'')]"
    and "get_prop alloc f = Inr JUndefined"
  shows "line \<noteq> JUndefined \<and> lookup_path (JSON_stringify line) [Key key] = None"
proof -
  from assms(1) obtain invoice_id where
    d: "get_prop alloc ''invoice_id'' = Inr invoice_id" and
    line: "line = JObj [(''artefact_id'', invoice_id), (''amount'', read_prop alloc ''amount'')]"
    by (cases "get_prop alloc ''invoice_id''") (simp_all add: allocated_artefact_def)
  from allocated_artefact_fields [OF d] assms(2,3)
  have "lookup_path (JSON_stringify line) [Key key] = None"
    unfolding line by blast
  then show ?thesis by (simp add: line)
qed


lemma lines_lookup:
  assumes "Array_map src (JArr items) g = Inr lines" and "i < length items"
    and "\<And>line. g (items ! i) = Inr line \<Longrightarrow>
           line \<noteq> JUndefined \<and> lookup_path (JSON_stringify line) [Key key] = None"
  shows "lines \<noteq> JUndefined \<and> lookup_path (JSON_stringify lines) [Index i, Key key] = None"
proof -
  from Array_map_nth [OF assms(1,2)] obtain ys where
    ys: "lines = JArr ys" "length ys = length items" "g (items ! i) = Inr (ys ! i)"
    by blast
  from assms(3) [OF ys(3)] have
    "ys ! i \<noteq> JUndefined" "lookup_path (JSON_stringify (ys ! i)) [Key key] = None"
    by simp_all
  with ys(1,2) assms(2) show ?thesis
    by (simp add: lookup_stringify_Index del: JSON_stringify.simps)
qed

lemma absent_item_field:
  assumes call: "tool_call rt t params = Inr c"
    and table: "item_fields t = Some (arg, p, fs)"
    and items: "params arg = Some (JArr items)"
    and i: "i < length items"
    and field: "(f, key) \<in> set fs"
    and absent: "get_prop (items ! i) f = Inr JUndefined"
  shows "\<exists>doc. request_payload (http_verb c) (body c) = JsonBody doc \<and>
           lookup_path doc (p @ [Index i, Key key]) = None"
proof (cases t)
  case sage_create_sales_invoice
  with table have tab: "arg = ''line_items''"
    "p = [Key ''sales_invoice'', Key ''invoice_lines'']"
    "fs = [(''description'', ''description''), (''quantity'', ''quantity''),
        (''unit_price'', ''unit_price''), (''tax_rate_id'', ''tax_rate_id''),
        (''ledger_account_id'', ''ledger_account_id'')]"
    by simp_all
  from items tab have arr: "param params ''line_items'' = JArr items" by (simp add: param_def)
  from call sage_create_sales_invoice arr obtain lines where
    lines: "Array_map ''params.line_items'' (JArr items) invoice_line = Inr lines" and
    c: "c = posting ''/sales_invoices''
            (JObj
              [(''sales_invoice'', JObj
                 [(''contact_id'', param params ''contact_id''),
                  (''date'', js_or (param params ''date'') (JStr (today rt))),
                  (''due_date'', param params ''due_date''),
                  (''reference'', param params ''reference''),
                  (''notes'', param params ''notes''),
                  (''invoice_lines'', lines)])])"
    by (cases "Array_map ''params.line_items'' (JArr items) invoice_line") simp_all
  from lines_lookup [OF lines i] invoice_line_absent field absent tab
  have "lines \<noteq> JUndefined \<and> lookup_path (JSON_stringify lines) [Index i, Key key] = None"
    by blast
  then show ?thesis
    unfolding c payload_posting tab
    by (simp add: lookup_stringify_Key del: JSON_stringify.simps)
next
  case sage_create_purchase_invoice
  with table have tab: "arg = ''line_items''"
    "p = [Key ''purchase_invoice'', Key ''invoice_lines'']"
    "fs = [(''description'', ''description''), (''quantity'', ''quantity''),
        (''unit_price'', ''unit_price''), (''tax_rate_id'', ''tax_rate_id''),
        (''ledger_account_id'', ''ledger_account_id'')]"
    by simp_all
  from items tab have arr: "param params ''line_items'' = JArr items" by (simp add: param_def)
  from call sage_create_purchase_invoice arr obtain lines where
    lines: "Array_map ''params.line_items'' (JArr items) invoice_line = Inr lines" and
    c: "c = posting ''/purchase_invoices''
            (JObj
              [(''purchase_invoice'', JObj
                 [(''contact_id'', param params ''contact_id''),
                  (''date'', js_or (param params ''date'') (JStr (today rt))),
                  (''due_date'', param params ''due_date''),
                  (''reference'', param params ''reference''),
                  (''notes'', param params ''notes''),
                  (''invoice_lines'', lines)])])"
    by (cases "Array_map ''params.line_items'' (JArr items) invoice_line") simp_all
  from lines_lookup [OF lines i] invoice_line_absent field absent tab
  have "lines \<noteq> JUndefined \<and> lookup_path (JSON_stringify lines) [Index i, Key key] = None"
    by blast
  then show ?thesis
    unfolding c payload_posting tab
    by (simp add: lookup_stringify_Key del: JSON_stringify.simps)
next
  case sage_create_purchase_invoice_payment
  with table have tab: "arg = ''invoice_allocations''"
    "p = [Key ''contact_payment'', Key ''allocated_artefacts'']"
    "fs = [(''invoice_id'', ''artefact_id''), (''amount'', ''amount'')]"
    by simp_all
  from items tab have arr: "param params ''invoice_allocations'' = JArr items"
    by (simp add: param_def)
  from call sage_create_purchase_invoice_payment arr obtain lines where
    lines: "Array_map ''params.invoice_allocations'' (JArr items) allocated_artefact = Inr lines" and
    c: "c = posting ''/contact_payments''
            (JObj
              [(''contact_payment'', JObj
                 [(''contact_id'', param params ''contact_id''),
                  (''bank_account_id'', param params ''bank_account_id''),
                  (''date'', param params ''date''),
                  (''total_amount'', param params ''total_amount''),
                  (''reference'', param params ''reference''),
                  (''allocated_artefacts'', lines)])])"
    by (cases "Array_map ''params.invoice_allocations'' (JArr items) allocated_artefact") simp_all
  from lines_lookup [OF lines i] allocated_artefact_absent field absent tab
  have "lines \<noteq> JUndefined \<and> lookup_path (JSON_stringify lines) [Index i, Key key] = None"
    by blast
  then show ?thesis
    unfolding c payload_posting tab
    by (simp add: lookup_stringify_Key del: JSON_stringify.simps)
qed (use table in simp_all)

text \<open>
  Claim C5, as the code has it. For every tool and every argument bag from which the
  tool's request is built, an argument \<open>k\<close> that is absent from the bag is absent from
  what is sent: the query has no parameter fed by \<open>k\<close>, and the JSON document of the
  body has no key at the place of \<open>k\<close> (so no \<^verbatim>\<open>null\<close>, empty string, empty object or
  empty array stands for it), unless \<open>k\<close> is one of the three arguments for which the code
  writes a default. For those the document has the default at the place of \<open>k\<close>:
  the empty array for \<^verbatim>\<open>contact_type_ids\<close> of \<^verbatim>\<open>sage_create_contact\<close>, the current date
  for \<^verbatim>\<open>date\<close> of the two create-invoice tools. The wrapper \<^verbatim>\<open>main_address\<close> of
  \<^verbatim>\<open>sage_create_contact\<close> is always written, as the empty object when no address argument
  is given. The same holds inside an array argument: a field that an item of
  \<^verbatim>\<open>line_items\<close> or \<^verbatim>\<open>invoice_allocations\<close> does not have leaves no key in the line
  written for that item. A tool that reads no query argument sends no query pair, and a
  tool that reads no body argument sends no body.
\<close>

theorem absent_argument_is_not_sent:
  assumes absent: "params k = None"
    and built: "prepare rt t (Some params) = Inr c"
  shows "(\<forall>q. (k, q) \<in> set (query_fields t) \<longrightarrow> q \<notin> fst ` set (queryParams c)) \<and>
         (\<forall>p. (k, p) \<in> set (body_fields t) \<and> (t, k) \<notin> set defaulted \<longrightarrow>
            (\<exists>doc. request_payload (http_verb c) (body c) = JsonBody doc \<and>
                   lookup_path doc p = None)) \<and>
         (\<forall>p d. (k, p) \<in> set (body_fields t) \<and> ((t, k), d) \<in> set (default_values rt) \<longrightarrow>
            (\<exists>doc. request_payload (http_verb c) (body c) = JsonBody doc \<and>
                   lookup_path doc p = Some d)) \<and>
         defaulted = map fst (default_values rt) \<and>
         (t = sage_create_contact \<longrightarrow>
            (\<exists>doc kvs. request_payload (http_verb c) (body c) = JsonBody doc \<and>
               lookup_path doc [Key ''contact'', Key ''main_address''] = Some (JObj kvs) \<and>
               (params ''address_line_1'' = None \<and> params ''city'' = None \<and>
                params ''postal_code'' = None \<and> params ''country_id'' = None \<longrightarrow> kvs = []))) \<and>
         (\<forall>arg p fs items i f key.
            item_fields t = Some (arg, p, fs) \<and> params arg = Some (JArr items) \<and>
            i < length items \<and> (f, key) \<in> set fs \<and>
            get_prop (items ! i) f = Inr JUndefined \<longrightarrow>
            (\<exists>doc. request_payload (http_verb c) (body c) = JsonBody doc \<and>
                   lookup_path doc (p @ [Index i, Key key]) = None)) \<and>
         (query_fields t = [] \<longrightarrow> queryParams c = []) \<and>
         (body_fields t = [] \<longrightarrow> request_payload (http_verb c) (body c) = NoBody)"
proof -
  from built have call: "tool_call rt t params = Inr c" by simp
  have query: "\<forall>q. (k, q) \<in> set (query_fields t) \<longrightarrow> q \<notin> fst ` set (queryParams c)"
    using absent_no_query [OF absent call] by blast
  have plain: "\<forall>p. (k, p) \<in> set (body_fields t) \<and> (t, k) \<notin> set defaulted \<longrightarrow>
            (\<exists>doc. request_payload (http_verb c) (body c) = JsonBody doc \<and>
                   lookup_path doc p = None)"
    using absent_no_body_key [OF absent call] by blast
  have dflt: "\<forall>p d. (k, p) \<in> set (body_fields t) \<and> ((t, k), d) \<in> set (default_values rt) \<longrightarrow>
            (\<exists>doc. request_payload (http_verb c) (body c) = JsonBody doc \<and>
                   lookup_path doc p = Some d)"
    using default_is_sent [OF absent call] by blast
  have wrapper: "t = sage_create_contact \<longrightarrow>
            (\<exists>doc kvs. request_payload (http_verb c) (body c) = JsonBody doc \<and>
               lookup_path doc [Key ''contact'', Key ''main_address''] = Some (JObj kvs) \<and>
               (params ''address_line_1'' = None \<and> params ''city'' = None \<and>
                params ''postal_code'' = None \<and> params ''country_id'' = None \<longrightarrow> kvs = []))"
    using main_address_is_sent [of rt params c] call by blast
  have lines: "\<forall>arg p fs items i f key.
            item_fields t = Some (arg, p, fs) \<and> params arg = Some (JArr items) \<and>
            i < length items \<and> (f, key) \<in> set fs \<and>
            get_prop (items ! i) f = Inr JUndefined \<longrightarrow>
            (\<exists>doc. request_payload (http_verb c) (body c) = JsonBody doc \<and>
                   lookup_path doc (p @ [Index i, Key key]) = None)"
    using absent_item_field [OF call] by blast
  from query plain dflt defaulted_default_values [of rt] wrapper lines
    no_fields_nothing_sent [OF call]
  show ?thesis by (intro conjI) blast+
qed

theorem absent_argument_is_not_sent_witness:
  "[''search'' \<mapsto> JStr ''acme''] ''page'' = None \<and>
   prepare (example_runtime []) sage_list_contacts (Some [''search'' \<mapsto> JStr ''acme'']) =
     Inr \<lparr> path = ''/contacts'', queryParams = [(''search'', ''acme'')],
            http_verb = GET, body = None \<rparr> \<and>
   ''page'' \<notin> fst ` set [(''search'', ''acme'')] \<and>
   endpoint \<lparr> path = ''/contacts'', queryParams = [(''search'', ''acme'')],
              http_verb = GET, body = None \<rparr> = ''/contacts?search=acme'' \<and>
   request_payload GET None = NoBody \<and>
   [''name'' \<mapsto> JStr ''Acme''] ''email'' = None \<and>
   lookup_path
     (JObj [(''contact'', JObj [(''name'', JStr ''Acme''), (''contact_type_ids'', JArr []),
                                (''main_address'', JObj [])])])
     [Key ''contact'', Key ''email''] = None \<and>
   lookup_path
     (JObj [(''sales_invoice'', JObj
        [(''contact_id'', JStr ''C1''), (''date'', JStr ''2026-11-03''),
         (''invoice_lines'', JArr [JObj [(''description'', JStr ''Widget'')]])])])
     [Key ''sales_invoice'', Key ''date''] = Some (JStr (today (example_runtime []))) \<and>
   lookup_path
     (JObj [(''sales_invoice'', JObj
        [(''contact_id'', JStr ''C1''), (''date'', JStr ''2026-11-03''),
         (''invoice_lines'', JArr [JObj [(''description'', JStr ''Widget'')]])])])
     [Key ''sales_invoice'', Key ''invoice_lines'', Index 0, Key ''tax_rate_id''] = None"
proof -
  define c1 where "c1 = \<lparr> path = ''/contacts'', queryParams = [(''search'', ''acme'')],
            http_verb = GET, body = None \<rparr>"
  have a1: "[''search'' \<mapsto> JStr ''acme''] ''page'' = None" by simp
  have b1: "prepare (example_runtime []) sage_list_contacts (Some [''search'' \<mapsto> JStr ''acme''])
              = Inr c1"
    by (simp add: c1_def listing_def param_def)
  note w1 = absent_argument_is_not_sent [OF a1 b1]
  from w1 have "\<forall>q. (''page'', q) \<in> set (query_fields sage_list_contacts) \<longrightarrow>
      q \<notin> fst ` set (queryParams c1)"
    by (rule conjunct1)
  then have q: "''page'' \<notin> fst ` set (queryParams c1)"
    by simp
  from w1 have "body_fields sage_list_contacts = [] \<longrightarrow>
      request_payload (http_verb c1) (body c1) = NoBody"
    by blast
  then have n: "request_payload (http_verb c1) (body c1) = NoBody"
    by simp
  have e: "endpoint c1 = ''/contacts?search=acme''"
    by (simp add: c1_def endpoint_def urlencode_def urlencode_byte_def)
  obtain c2 where b2: "prepare (example_runtime []) sage_create_contact
      (Some [''name'' \<mapsto> JStr ''Acme'']) = Inr c2"
    by simp
  then have doc2: "request_payload (http_verb c2) (body c2) =
      JsonBody (JObj [(''contact'', JObj [(''name'', JStr ''Acme''),
         (''contact_type_ids'', JArr []), (''main_address'', JObj [])])])"
    by (auto simp: posting_def request_payload_def param_def js_or_def)
  have a2: "[''name'' \<mapsto> JStr ''Acme''] ''email'' = None" by simp
  from absent_argument_is_not_sent [OF a2 b2]
  have "\<forall>p. (''email'', p) \<in> set (body_fields sage_create_contact) \<and>
      (sage_create_contact, ''email'') \<notin> set defaulted \<longrightarrow>
      (\<exists>doc. request_payload (http_verb c2) (body c2) = JsonBody doc \<and> lookup_path doc p = None)"
    by blast
  then have "\<exists>doc. request_payload (http_verb c2) (body c2) = JsonBody doc \<and>
      lookup_path doc [Key ''contact'', Key ''email''] = None"
    by (simp add: defaulted_def)
  with doc2 have email: "lookup_path
     (JObj [(''contact'', JObj [(''name'', JStr ''Acme''), (''contact_type_ids'', JArr []),
                                (''main_address'', JObj [])])])
     [Key ''contact'', Key ''email''] = None"
    by simp
  define bag :: "string \<rightharpoonup> jsval" where
    "bag = [''contact_id'' \<mapsto> JStr ''C1'',
            ''line_items'' \<mapsto> JArr [JObj [(''description'', JStr ''Widget'')]]]"
  obtain c3 where b3: "prepare (example_runtime []) sage_create_sales_invoice (Some bag) = Inr c3"
    by (simp add: bag_def Array_map_def invoice_line_def param_def)
  then have doc3: "request_payload (http_verb c3) (body c3) =
      JsonBody (JObj [(''sales_invoice'', JObj
        [(''contact_id'', JStr ''C1''), (''date'', JStr ''2026-11-03''),
         (''invoice_lines'', JArr [JObj [(''description'', JStr ''Widget'')]])])])"
    by (auto simp: bag_def Array_map_def invoice_line_def read_prop_def param_def posting_def
          request_payload_def js_or_def today_def example_runtime_def)
  have a3: "bag ''date'' = None" by (simp add: bag_def)
  note w3 = absent_argument_is_not_sent [OF a3 b3]
  from w3 have "\<forall>p d. (''date'', p) \<in> set (body_fields sage_create_sales_invoice) \<and>
      ((sage_create_sales_invoice, ''date''), d) \<in> set (default_values (example_runtime [])) \<longrightarrow>
      (\<exists>doc. request_payload (http_verb c3) (body c3) = JsonBody doc \<and> lookup_path doc p = Some d)"
    by blast
  then have "\<exists>doc. request_payload (http_verb c3) (body c3) = JsonBody doc \<and>
      lookup_path doc [Key ''sales_invoice'', Key ''date''] = Some (JStr (today (example_runtime [])))"
    by (simp add: default_values_def)
  with doc3 have date: "lookup_path
     (JObj [(''sales_invoice'', JObj
        [(''contact_id'', JStr ''C1''), (''date'', JStr ''2026-11-03''),
         (''invoice_lines'', JArr [JObj [(''description'', JStr ''Widget'')]])])])
     [Key ''sales_invoice'', Key ''date''] = Some (JStr (today (example_runtime [])))"
    by simp
  from w3 have "\<forall>arg p fs items i f key.
      item_fields sage_create_sales_invoice = Some (arg, p, fs) \<and> bag arg = Some (JArr items) \<and>
      i < length items \<and> (f, key) \<in> set fs \<and> get_prop (items ! i) f = Inr JUndefined \<longrightarrow>
      (\<exists>doc. request_payload (http_verb c3) (body c3) = JsonBody doc \<and>
             lookup_path doc (p @ [Index i, Key key]) = None)"
    by blast
  then have "item_fields sage_create_sales_invoice =
        Some (''line_items'', [Key ''sales_invoice'', Key ''invoice_lines''],
          [(''description'', ''description''), (''quantity'', ''quantity''),
           (''unit_price'', ''unit_price''), (''tax_rate_id'', ''tax_rate_id''),
           (''ledger_account_id'', ''ledger_account_id'')]) \<and>
      bag ''line_items'' = Some (JArr [JObj [(''description'', JStr ''Widget'')]]) \<and>
      0 < length [JObj [(''description'', JStr ''Widget'')]] \<and>
      (''tax_rate_id'', ''tax_rate_id'') \<in> set [(''description'', ''description''),
           (''quantity'', ''quantity''), (''unit_price'', ''unit_price''),
           (''tax_rate_id'', ''tax_rate_id''), (''ledger_account_id'', ''ledger_account_id'')] \<and>
      get_prop ([JObj [(''description'', JStr ''Widget'')]] ! 0) ''tax_rate_id'' = Inr JUndefined \<longrightarrow>
      (\<exists>doc. request_payload (http_verb c3) (body c3) = JsonBody doc \<and>
             lookup_path doc ([Key ''sales_invoice'', Key ''invoice_lines''] @
               [Index 0, Key ''tax_rate_id'']) = None)"
    by blast
  then have "\<exists>doc. request_payload (http_verb c3) (body c3) = JsonBody doc \<and>
             lookup_path doc [Key ''sales_invoice'', Key ''invoice_lines'', Index 0,
               Key ''tax_rate_id''] = None"
    by (simp add: bag_def)
  with doc3 have line: "lookup_path
     (JObj [(''sales_invoice'', JObj
        [(''contact_id'', JStr ''C1''), (''date'', JStr ''2026-11-03''),
         (''invoice_lines'', JArr [JObj [(''description'', JStr ''Widget'')]])])])
     [Key ''sales_invoice'', Key ''invoice_lines'', Index 0, Key ''tax_rate_id''] = None"
    by simp
  from a1 b1 q n e a2 email date line show ?thesis
    by (simp add: c1_def)
qed

text \<open>
  Without the exception the claim fails: \<^verbatim>\<open>sage_create_contact\<close> called with a name only
  sends \<^verbatim>\<open>contact_type_ids: []\<close>, the default of \<^verbatim>\<open>params.contact_type_ids || []\<close> (and
  the wrapper \<^verbatim>\<open>main_address\<close> as an empty object).
\<close>

theorem absent_contact_type_ids_are_sent:
  "[''name'' \<mapsto> JStr ''Acme''] ''contact_type_ids'' = None \<and>
   prepare (example_runtime []) sage_create_contact (Some [''name'' \<mapsto> JStr ''Acme'']) =
     Inr \<lparr> path = ''/contacts'', queryParams = [], http_verb = POST,
            body = Some (JObj
              [(''contact'', JObj
                 [(''name'', JStr ''Acme''),
                  (''contact_type_ids'', JArr []),
                  (''reference'', JUndefined),
                  (''main_address'', JObj
                     [(''address_line_1'', JUndefined), (''city'', JUndefined),
                      (''postal_code'', JUndefined), (''country_id'', JUndefined)]),
                  (''email'', JUndefined),
                  (''telephone'', JUndefined)])]) \<rparr> \<and>
   request_payload POST (Some (JObj
              [(''contact'', JObj
                 [(''name'', JStr ''Acme''),
                  (''contact_type_ids'', JArr []),
                  (''reference'', JUndefined),
                  (''main_address'', JObj
                     [(''address_line_1'', JUndefined), (''city'', JUndefined),
                      (''postal_code'', JUndefined), (''country_id'', JUndefined)]),
                  (''email'', JUndefined),
                  (''telephone'', JUndefined)])])) =
     JsonBody (JObj [(''contact'', JObj [(''name'', JStr ''Acme''),
       (''contact_type_ids'', JArr []), (''main_address'', JObj [])])]) \<and>
   lookup_path
     (JObj [(''contact'', JObj [(''name'', JStr ''Acme''), (''contact_type_ids'', JArr []),
                                (''main_address'', JObj [])])])
     [Key ''contact'', Key ''contact_type_ids''] = Some (JArr [])"
  by (simp add: posting_def request_payload_def param_def js_or_def)

section \<open>Falsy arguments of the list tools\<close>

text \<open>A statement whose condition fails does not look at its value.\<close>

lemma appends_cong:
  "list_all2 (\<lambda>a b. fst a = fst b \<and> fst (snd a) = fst (snd b) \<and>
                      (fst a \<longrightarrow> snd (snd a) = snd (snd b))) s1 s2
     \<Longrightarrow> appends rt q s1 = appends rt q s2"
proof (induction s1 s2 arbitrary: q rule: list_all2_induct)
  case Nil
  then show ?case by simp
next
  case (Cons a s1 b s2)
  obtain c k v where a: "a = (c, k, v)" by (cases a)
  obtain c' k' v' where b: "b = (c', k', v')" by (cases b)
  from Cons.hyps(1) a b have same: "c' = c" "k' = k" "c \<longrightarrow> v' = v" by auto
  show ?case
  proof (cases c)
    case True
    with same have "v' = v" by simp
    with same True a b Cons.IH show ?thesis by (simp split: sum.splits)
  next
    case False
    with same a b Cons.IH show ?thesis by simp
  qed
qed

lemma listing_cong:
  "list_all2 (\<lambda>a b. fst a = fst b \<and> fst (snd a) = fst (snd b) \<and>
                      (fst a \<longrightarrow> snd (snd a) = snd (snd b))) s1 s2
     \<Longrightarrow> listing rt p s1 = listing rt p s2"
  by (simp add: listing_def appends_cong [of s1 s2])

lemma param_without:
  assumes "params k = Some v" and "\<not> truthy v"
  shows "truthy (param (params(k := None)) f) = truthy (param params f)"
    and "truthy (param params f) \<Longrightarrow> param (params(k := None)) f = param params f"
    and "f \<noteq> k \<Longrightarrow> param (params(k := None)) f = param params f"
  using assms by (auto simp: param_def)

lemma falsy_like_absent:
  assumes tool: "t \<in> set list_tools"
    and present: "params k = Some v"
    and falsy: "\<not> truthy v"
    and other: "(t, k) \<noteq> (sage_list_products, ''active'')"
  shows "tool_call rt t (params(k := None)) = tool_call rt t params"
proof -
  note pw = param_without [of params k v, OF present falsy]
  from tool consider "t = sage_list_contacts" | "t = sage_list_sales_invoices"
    | "t = sage_list_purchase_invoices" | "t = sage_list_bank_accounts"
    | "t = sage_list_products" | "t = sage_list_payments" | "t = sage_list_ledger_accounts"
    | "t = sage_list_tax_rates"
    by (auto simp: list_tools_def)
  then show ?thesis
  proof cases
    case 1
    then show ?thesis by (simp add: pw listing_cong cong: conj_cong)
  next
    case 2
    then show ?thesis by (simp add: pw listing_cong)
  next
    case 3
    then show ?thesis by (simp add: pw listing_cong)
  next
    case 4
    then show ?thesis by simp
  next
    case 5
    with other have "''active'' \<noteq> k" by auto
    with 5 show ?thesis by (simp add: pw listing_cong)
  next
    case 6
    then show ?thesis by (simp add: pw listing_cong)
  next
    case 7
    then show ?thesis by (simp add: pw listing_cong)
  next
    case 8
    then show ?thesis by simp
  qed
qed

text \<open>
  Claim C10. For a list tool, an argument that is present with a falsy value
  (\<^verbatim>\<open>0\<close>, the empty string, \<^verbatim>\<open>false\<close>, \<^verbatim>\<open>null\<close>) is treated exactly as if it were absent:
  the prepared call is the same as for the bag without it, and the query has no parameter
  fed by it. The one exception is \<^verbatim>\<open>active\<close> of \<^verbatim>\<open>sage_list_products\<close>, tested with
  \<^verbatim>\<open>!== undefined\<close>: when it is present and \<^verbatim>\<open>false\<close>, the query has the pair
  \<^verbatim>\<open>active=false\<close>.
\<close>

theorem falsy_filter_is_omitted:
  "(t \<in> set list_tools \<and> params k = Some v \<and> \<not> truthy v \<and>
      (t, k) \<noteq> (sage_list_products, ''active'') \<longrightarrow>
      prepare rt t (Some params) = prepare rt t (Some (params(k := None))) \<and>
      (\<forall>c q. prepare rt t (Some params) = Inr c \<and> (k, q) \<in> set (query_fields t) \<longrightarrow>
         q \<notin> fst ` set (queryParams c))) \<and>
   (params ''active'' = Some (JBool False) \<and>
      prepare rt sage_list_products (Some params) = Inr c' \<longrightarrow>
      (''active'', ''false'') \<in> set (queryParams c'))"
proof (intro conjI impI allI)
  assume h: "t \<in> set list_tools \<and> params k = Some v \<and> \<not> truthy v \<and>
      (t, k) \<noteq> (sage_list_products, ''active'')"
  then have eq: "tool_call rt t (params(k := None)) = tool_call rt t params"
    by (intro falsy_like_absent) auto
  then show "prepare rt t (Some params) = prepare rt t (Some (params(k := None)))"
    by simp
  fix c q
  assume "prepare rt t (Some params) = Inr c \<and> (k, q) \<in> set (query_fields t)"
  with eq have "tool_call rt t (params(k := None)) = Inr c" "(k, q) \<in> set (query_fields t)"
    by simp_all
  moreover have "(params(k := None)) k = None" by simp
  ultimately show "q \<notin> fst ` set (queryParams c)"
    using absent_no_query by blast
next
  assume h: "params ''active'' = Some (JBool False) \<and>
      prepare rt sage_list_products (Some params) = Inr c'"
  then have "listing rt ''/products''
       [(truthy (param params ''search''), ''search'', param params ''search''),
        (param params ''active'' \<noteq> JUndefined, ''active'', param params ''active''),
        (truthy (param params ''page''), ''page'', param params ''page'')] = Inr c'"
    by simp
  from appends_mem [OF listing_Inr [OF this], of "''active''" "JBool False"] h
  show "(''active'', ''false'') \<in> set (queryParams c')"
    by (auto simp: param_def)
qed

theorem falsy_filter_is_omitted_witness:
  "sage_list_contacts \<in> set list_tools \<and>
   \<not> truthy (JNum 0) \<and> \<not> truthy (JStr []) \<and>
   prepare (example_runtime []) sage_list_contacts
       (Some [''page'' \<mapsto> JNum 0, ''items_per_page'' \<mapsto> JNum 0, ''search'' \<mapsto> JStr []]) =
     Inr \<lparr> path = ''/contacts'', queryParams = [], http_verb = GET, body = None \<rparr> \<and>
   endpoint \<lparr> path = ''/contacts'', queryParams = [], http_verb = GET, body = None \<rparr>
     = ''/contacts'' \<and>
   prepare (example_runtime []) sage_list_products (Some [''active'' \<mapsto> JBool False]) =
     Inr \<lparr> path = ''/products'', queryParams = [(''active'', ''false'')],
            http_verb = GET, body = None \<rparr> \<and>
   endpoint \<lparr> path = ''/products'', queryParams = [(''active'', ''false'')],
              http_verb = GET, body = None \<rparr> = ''/products?active=false''"
proof -
  define bag :: "string \<rightharpoonup> jsval" where
    "bag = [''page'' \<mapsto> JNum 0, ''items_per_page'' \<mapsto> JNum 0, ''search'' \<mapsto> JStr []]"
  define c1 where "c1 = \<lparr> path = ''/contacts'', queryParams = [], http_verb = GET, body = None \<rparr>"
  define c2 where "c2 = \<lparr> path = ''/products'', queryParams = [(''active'', ''false'')],
            http_verb = GET, body = None \<rparr>"
  have h: "sage_list_contacts \<in> set list_tools \<and> bag ''page'' = Some (JNum 0) \<and>
      \<not> truthy (JNum 0) \<and> (sage_list_contacts, ''page'') \<noteq> (sage_list_products, ''active'')"
    by (simp add: list_tools_def bag_def)
  have gone: "prepare (example_runtime []) sage_list_contacts (Some (bag(''page'' := None))) = Inr c1"
    by (simp add: bag_def c1_def listing_def param_def)
  have b2: "[''active'' \<mapsto> JBool False] ''active'' = Some (JBool False) \<and>
      prepare (example_runtime []) sage_list_products (Some [''active'' \<mapsto> JBool False]) = Inr c2"
    by (simp add: c2_def listing_def param_def)
  from falsy_filter_is_omitted [where t = sage_list_contacts and params = bag
      and k = "''page''" and v = "JNum 0" and rt = "example_runtime []"] h gone
  have "prepare (example_runtime []) sage_list_contacts (Some bag) = Inr c1"
    by simp
  moreover
  from falsy_filter_is_omitted [where params = "[''active'' \<mapsto> JBool False]"
      and rt = "example_runtime []" and c' = c2] b2
  have "(''active'', ''false'') \<in> set (queryParams c2)"
    by blast
  moreover have "endpoint c1 = ''/contacts''"
    by (simp add: c1_def endpoint_def)
  moreover have "endpoint c2 = ''/products?active=false''"
    by (simp add: c2_def endpoint_def urlencode_def urlencode_byte_def)
  ultimately show ?thesis
    using h b2 by (simp add: bag_def c1_def c2_def)
qed

end
